theory Spec2Isabelle
  imports Main "HOL-Library.Sublist"
begin

section \<open>Strings\<close>

text \<open>
  Go strings are byte sequences; they are modelled as \<open>string\<close> (a \<open>char list\<close>).
  \<open>HasPrefix\<close> is \<open>strings.HasPrefix\<close> and \<open>Contains\<close> is \<open>strings.Contains\<close>
  (a substring test, also what \<open>grep -q\<close> does with a fixed word on one line).
\<close>

fun HasPrefix :: "string \<Rightarrow> string \<Rightarrow> bool" where
  "HasPrefix s [] = True"
| "HasPrefix [] (p # ps) = False"
| "HasPrefix (c # s) (p # ps) = (c = p \<and> HasPrefix s ps)"

fun Contains :: "string \<Rightarrow> string \<Rightarrow> bool" where
  "Contains [] sub = (sub = [])"
| "Contains (c # s) sub = (HasPrefix (c # s) sub \<or> Contains s sub)"

section \<open>The go-git vocabulary used by \<open>pkg/gitops.go\<close>\<close>

text \<open>
  Reference names (\<open>plumbing.ReferenceName\<close>) are strings. \<open>IsTag\<close> and \<open>IsBranch\<close> test
  the prefixes \<open>refs/tags/\<close> and \<open>refs/heads/\<close>; \<open>Short\<close> drops the prefix;
  \<open>NewTagReferenceName\<close> and \<open>NewBranchReferenceName\<close> add it.
\<close>

definition IsTag :: "string \<Rightarrow> bool" where
  "IsTag r = HasPrefix r ''refs/tags/''"

definition IsBranch :: "string \<Rightarrow> bool" where
  "IsBranch r = HasPrefix r ''refs/heads/''"

definition Short :: "string \<Rightarrow> string" where
  "Short r =
     (if HasPrefix r ''refs/tags/'' then drop (length ''refs/tags/'') r
      else if HasPrefix r ''refs/heads/'' then drop (length ''refs/heads/'') r
      else if HasPrefix r ''refs/remotes/'' then drop (length ''refs/remotes/'') r
      else if HasPrefix r ''refs/'' then drop (length ''refs/'') r
      else r)"

definition NewTagReferenceName :: "string \<Rightarrow> string" where
  "NewTagReferenceName n = ''refs/tags/'' @ n"

definition NewBranchReferenceName :: "string \<Rightarrow> string" where
  "NewBranchReferenceName n = ''refs/heads/'' @ n"

text \<open>
  The errors go-git hands back. The three sentinels are the package variables the code
  tests with \<open>errors.Is\<close>; go-git returns them unwrapped, so \<open>errors.Is err s\<close> is
  equality with the sentinel. Any other error is known by its message only.
\<close>

datatype git_error =
    ErrRepositoryAlreadyExists
  | ErrRemoteExists
  | NoErrAlreadyUpToDate
  | OtherError string

fun Error :: "git_error \<Rightarrow> string" where
  "Error ErrRepositoryAlreadyExists = ''repository already exists''"
| "Error ErrRemoteExists = ''remote already exists''"
| "Error NoErrAlreadyUpToDate = ''already up-to-date''"
| "Error (OtherError m) = m"

text \<open>Authentication: \<open>GitAuthMethod\<close> has one implementation, and may be nil.\<close>

datatype GitAuthMethod = BasicAuthMethod (Username: string) (Password: string)

datatype AuthMethod = BasicAuth string string

fun GetAuthMethod :: "GitAuthMethod \<Rightarrow> AuthMethod" where
  "GetAuthMethod (BasicAuthMethod u p) = BasicAuth u p"

datatype RefType = RefTypeUnknown | RefTypeTag | RefTypeBranch

fun RefType_String :: "RefType \<Rightarrow> string" where
  "RefType_String RefTypeTag = ''tag''"
| "RefType_String RefTypeBranch = ''branch''"
| "RefType_String RefTypeUnknown = ''unknown''"

datatype writer = Writer nat

datatype PeelingOption = AppendPeeled

record ListOptions =
  lo_PeelingOption :: PeelingOption
  lo_InsecureSkipTLS :: bool
  lo_Auth :: "AuthMethod option"

text \<open>
  \<open>git.TagMode\<close> tells which tags a fetch brings: those that point into the fetched
  history (\<open>TagFollowing\<close>), every tag of the remote (\<open>AllTags\<close>) or none (\<open>NoTags\<close>).
  Its zero value is \<open>InvalidTagMode\<close>.
\<close>

datatype TagMode = InvalidTagMode | TagFollowing | AllTags | NoTags

text \<open>
  The fields of \<open>git.CloneOptions\<close> that \<open>pkg/gitops.go\<close> sets, and \<open>Tags\<close>, which it
  leaves at its zero value.
\<close>

record CloneOptions =
  co_URL :: string
  co_Progress :: "writer option"
  co_InsecureSkipTLS :: bool
  co_Depth :: nat
  co_SingleBranch :: bool
  co_Auth :: "AuthMethod option"
  co_ReferenceName :: string
  co_Tags :: TagMode


record PushOptions =
  po_RemoteName :: string
  po_Progress :: "writer option"
  po_InsecureSkipTLS :: bool
  po_Auth :: "AuthMethod option"
  po_RefSpecs :: "string list"

record RemoteConfig =
  rc_Name :: string
  rc_URLs :: "string list"

section \<open>Runs of the Go operation\<close>

text \<open>
  The operation talks to the network and to the local repository. A run is modelled by
  the list of what it did, in order (every library call with its arguments and every
  log line), and by the error it returns (\<open>None\<close> is Go's \<open>nil\<close>).
  The log lines are the \<open>log.Printf\<close> calls of the source, one constructor each,
  with the values that are printed.
\<close>

datatype log_line =
    Log_fetching_refs string
  | Log_ref_is_tag string
  | Log_ref_is_branch string
  | Log_ref_unrecognised string
  | Log_clone_tag string
  | Log_clone_branch string
  | Log_cloning string string
  | Log_dir_exists_open string
  | Log_warn_clone_skipped string
  | Log_cloned string
  | Log_configuring_remote string
  | Log_remote_exists string
  | Log_push_hash_to_tag string string
  | Log_push_all_tags
  | Log_pushing string
  | Log_pushed
  | Log_tag_exists_skipped string

datatype event =
    Log log_line
  | Call_List RemoteConfig ListOptions
  | Call_PlainClone string CloneOptions
  | Call_PlainOpen string
  | Call_CreateRemote RemoteConfig
  | Call_Remote string
  | Call_Reference string
  | Call_Push PushOptions

text \<open>
  \<open>checkRemoteRefExistence\<close> (gitops.go, lines 226 to 267). The answer of the remote to
  \<open>rem.List\<close> is the parameter \<open>listed\<close>: an error, or the names of the references.
  The loop over the references is \<open>split_refs\<close>, with the two slices as accumulators.
\<close>

fun split_refs :: "string list \<Rightarrow> string list \<Rightarrow> string list \<Rightarrow> string list \<times> string list" where
  "split_refs [] tags branches = (tags, branches)"
| "split_refs (r # refs) tags branches =
     (if IsTag r then split_refs refs (tags @ [Short r]) branches
      else if IsBranch r then split_refs refs tags (branches @ [Short r])
      else split_refs refs tags branches)"

datatype list_error = Err_list_refs git_error

definition origin :: "string \<Rightarrow> RemoteConfig" where
  "origin repoURL = \<lparr>rc_Name = ''origin'', rc_URLs = [repoURL]\<rparr>"

definition listOptions :: "GitAuthMethod option \<Rightarrow> ListOptions" where
  "listOptions auth =
     \<lparr>lo_PeelingOption = AppendPeeled, lo_InsecureSkipTLS = True,
      lo_Auth = map_option GetAuthMethod auth\<rparr>"

definition checkRemoteRefExistence ::
  "string \<Rightarrow> string \<Rightarrow> GitAuthMethod option \<Rightarrow> (git_error + string list)
     \<Rightarrow> event list \<times> (list_error + RefType)" where
  "checkRemoteRefExistence repoURL refName auth listed =
     (let t = [Log (Log_fetching_refs repoURL), Call_List (origin repoURL) (listOptions auth)]
      in case listed of
           Inl e \<Rightarrow> (t, Inl (Err_list_refs e))
         | Inr refs \<Rightarrow>
             (case split_refs refs [] [] of (tags, branches) \<Rightarrow>
                if refName \<in> set tags then (t @ [Log (Log_ref_is_tag refName)], Inr RefTypeTag)
                else if refName \<in> set branches
                  then (t @ [Log (Log_ref_is_branch refName)], Inr RefTypeBranch)
                else (t @ [Log (Log_ref_unrecognised refName)], Inr RefTypeUnknown)))"

section \<open>\<open>PerformGitOperation\<close>\<close>

record GitOperationOptions =
  FromRepoURL :: string
  FromRef :: string
  FromAuth :: "GitAuthMethod option"
  ToRepoURL :: string
  ToTag :: string
  ToAuth :: "GitAuthMethod option"
  OutputDir :: string
  ProgressWriter :: "writer option"
  OnTagExistsBehavior :: string

text \<open>
  What the outside answers, one field for each place where the operation asks:
  the reference list of the source (line 77), \<open>git.PlainClone\<close> (line 109),
  \<open>git.PlainOpen\<close> (line 113), \<open>r.CreateRemote\<close> (line 133), \<open>r.Remote\<close> (line 139),
  \<open>r.Reference\<close> on the remote-tracking name (line 158) and on the tag name (line 160),
  which answer with a commit hash, \<open>gitTarget.Push\<close> (line 180) and the reference list of
  the destination (line 200). For the calls that return only an error, \<open>None\<close> is success.
  Each place is reached at most once in a run, so every environment is some \<open>world\<close>.
\<close>

record world =
  list_source :: "git_error + string list"
  plain_clone :: "git_error option"
  plain_open :: "git_error option"
  create_remote :: "git_error option"
  get_remote :: "git_error option"
  reference_origin :: "git_error + string"
  reference_tag :: "git_error + string"
  push :: "git_error option"
  list_target :: "git_error + string list"

text \<open>
  The errors \<open>PerformGitOperation\<close> returns, one constructor for each \<open>fmt.Errorf\<close>, in
  the order of the source (lines 79, 82, 115, 122, 135, 141, 163, 202, 207, 213, 217).
  At line 217 the variable \<open>err\<close> is wrapped: it is the error of the push, unless line 200
  has overwritten it with the (nil) error of the second classification.
\<close>

datatype op_error =
    Err_check_source string list_error
  | Err_ref_not_found string
  | Err_open_existing string git_error
  | Err_clone git_error
  | Err_create_remote git_error
  | Err_get_remote string git_error
  | Err_local_ref string git_error
  | Err_check_target string list_error
  | Err_tag_exists string
  | Err_unknown_behavior string
  | Err_push "git_error option"

record run =
  events :: "event list"
  returned :: "op_error option"

definition unpack_ok :: string where
  "unpack_ok = ''decode report-status: unknown channel unpack ok''"

text \<open>Lines 196 to 199: the name that is looked up on the destination.\<close>

definition target_tag :: "GitOperationOptions \<Rightarrow> string" where
  "target_tag opts = (if ToTag opts = [] then FromRef opts else ToTag opts)"

text \<open>Lines 181 to 221: what is done with the result of the push.\<close>

definition push_result :: "GitOperationOptions \<Rightarrow> world \<Rightarrow> event list \<Rightarrow> run" where
  "push_result opts w t =
     (case push w of
        None \<Rightarrow> \<lparr>events = t @ [Log Log_pushed], returned = None\<rparr>
      | Some e \<Rightarrow>
          if Contains (Error e) unpack_ok
          then \<lparr>events = t @ [Log Log_pushed], returned = None\<rparr>
          else if e = NoErrAlreadyUpToDate then
            (let tag = target_tag opts
             in case checkRemoteRefExistence (ToRepoURL opts) tag (ToAuth opts) (list_target w) of
                  (t2, Inl le) \<Rightarrow> \<lparr>events = t @ t2, returned = Some (Err_check_target tag le)\<rparr>
                | (t2, Inr refType) \<Rightarrow>
                    if refType = RefTypeTag then
                      (if OnTagExistsBehavior opts = ''error''
                         then \<lparr>events = t @ t2, returned = Some (Err_tag_exists tag)\<rparr>
                       else if OnTagExistsBehavior opts = ''skip''
                         then \<lparr>events = t @ t2 @ [Log (Log_tag_exists_skipped tag)],
                               returned = None\<rparr>
                       else \<lparr>events = t @ t2,
                             returned = Some (Err_unknown_behavior (OnTagExistsBehavior opts))\<rparr>)
                    else \<lparr>events = t @ t2, returned = Some (Err_push None)\<rparr>)
          else \<lparr>events = t, returned = Some (Err_push (Some e))\<rparr>)"

text \<open>
  Lines 145 to 180: the push options, the ref-specs and the push. \<open>pushOptions\<close> is the
  value of the variable of that name when the push is made, with its ref-specs.
\<close>

definition pushOptions :: "GitOperationOptions \<Rightarrow> string list \<Rightarrow> PushOptions" where
  "pushOptions opts specs =
     \<lparr>po_RemoteName = ''target'', po_Progress = ProgressWriter opts,
      po_InsecureSkipTLS = True,
      po_Auth = map_option GetAuthMethod (ToAuth opts), po_RefSpecs = specs\<rparr>"

definition push_stage :: "GitOperationOptions \<Rightarrow> world \<Rightarrow> RefType \<Rightarrow> event list \<Rightarrow> run" where
  "push_stage opts w refType t =
     (if ToTag opts \<noteq> [] then
        (let t1 = t @ [Call_Reference (''refs/remotes/origin/'' @ FromRef opts)];
             t2 = (if refType = RefTypeTag
                   then t1 @ [Call_Reference (NewTagReferenceName (FromRef opts))] else t1);
             localRef = (if refType = RefTypeTag then reference_tag w else reference_origin w)
         in case localRef of
              Inl e \<Rightarrow> \<lparr>events = t2, returned = Some (Err_local_ref (FromRef opts) e)\<rparr>
            | Inr hash \<Rightarrow>
                push_result opts w
                  (t2 @ [Log (Log_push_hash_to_tag hash (ToTag opts)),
                         Log (Log_pushing (ToRepoURL opts)),
                         Call_Push (pushOptions opts [hash @ '':refs/tags/'' @ ToTag opts])]))
      else
        push_result opts w
          (t @ [Log Log_push_all_tags,
                Log (Log_pushing (ToRepoURL opts)),
                Call_Push (pushOptions opts [''refs/tags/*:refs/tags/*''])]))"

text \<open>Lines 127 to 143: the remote named \<open>target\<close>.\<close>

definition targetRemoteConfig :: "GitOperationOptions \<Rightarrow> RemoteConfig" where
  "targetRemoteConfig opts = \<lparr>rc_Name = ''target'', rc_URLs = [ToRepoURL opts]\<rparr>"

definition remote_stage :: "GitOperationOptions \<Rightarrow> world \<Rightarrow> RefType \<Rightarrow> event list \<Rightarrow> run" where
  "remote_stage opts w refType t =
     (let t1 = t @ [Log (Log_configuring_remote (ToRepoURL opts)),
                    Call_CreateRemote (targetRemoteConfig opts)]
      in case create_remote w of
           None \<Rightarrow> push_stage opts w refType t1
         | Some e \<Rightarrow>
             if e \<noteq> ErrRemoteExists
             then \<lparr>events = t1, returned = Some (Err_create_remote e)\<rparr>
             else
               (let t2 = t1 @ [Log (Log_remote_exists (rc_Name (targetRemoteConfig opts))),
                               Call_Remote (rc_Name (targetRemoteConfig opts))]
                in case get_remote w of
                     Some e2 \<Rightarrow>
                       \<lparr>events = t2,
                        returned = Some (Err_get_remote (rc_Name (targetRemoteConfig opts)) e2)\<rparr>
                   | None \<Rightarrow> push_stage opts w refType t2))"

text \<open>
  Lines 85 to 125: the clone options and the clone. \<open>cloneOptions\<close> is the value of the
  variable of that name when \<open>git.PlainClone\<close> is called. The code never assigns its
  \<open>Tags\<close> field.
\<close>

definition cloneOptions :: "GitOperationOptions \<Rightarrow> RefType \<Rightarrow> CloneOptions" where
  "cloneOptions opts refType =
     (let co = \<lparr>co_URL = FromRepoURL opts, co_Progress = ProgressWriter opts,
                co_InsecureSkipTLS = True, co_Depth = 1, co_SingleBranch = True,
                co_Auth = map_option GetAuthMethod (FromAuth opts),
                co_ReferenceName = [], co_Tags = InvalidTagMode\<rparr>
      in if refType = RefTypeTag
           then co \<lparr>co_ReferenceName := NewTagReferenceName (FromRef opts)\<rparr>
         else if refType = RefTypeBranch
           then co \<lparr>co_ReferenceName := NewBranchReferenceName (FromRef opts)\<rparr>
         else co)"

definition clone_stage :: "GitOperationOptions \<Rightarrow> world \<Rightarrow> RefType \<Rightarrow> event list \<Rightarrow> run" where
  "clone_stage opts w refType t =
     (let t1 = (if refType = RefTypeTag then t @ [Log (Log_clone_tag (FromRef opts))]
                else if refType = RefTypeBranch then t @ [Log (Log_clone_branch (FromRef opts))]
                else t);
          t2 = t1 @ [Log (Log_cloning (FromRepoURL opts) (OutputDir opts)),
                     Call_PlainClone (OutputDir opts) (cloneOptions opts refType)]
      in case plain_clone w of
           None \<Rightarrow> remote_stage opts w refType (t2 @ [Log (Log_cloned (OutputDir opts))])
         | Some e \<Rightarrow>
             if e = ErrRepositoryAlreadyExists then
               (let t3 = t2 @ [Log (Log_dir_exists_open (OutputDir opts)),
                               Call_PlainOpen (OutputDir opts)]
                in case plain_open w of
                     Some e2 \<Rightarrow>
                       \<lparr>events = t3, returned = Some (Err_open_existing (OutputDir opts) e2)\<rparr>
                   | None \<Rightarrow>
                       remote_stage opts w refType
                         (t3 @ [Log (Log_warn_clone_skipped (OutputDir opts)),
                                Log (Log_cloned (OutputDir opts))]))
             else \<lparr>events = t2, returned = Some (Err_clone e)\<rparr>)"

text \<open>Lines 75 to 83, and the whole operation.\<close>

definition PerformGitOperation :: "GitOperationOptions \<Rightarrow> world \<Rightarrow> run" where
  "PerformGitOperation opts w =
     (case checkRemoteRefExistence (FromRepoURL opts) (FromRef opts) (FromAuth opts)
             (list_source w) of
        (t, Inl le) \<Rightarrow> \<lparr>events = t, returned = Some (Err_check_source (FromRef opts) le)\<rparr>
      | (t, Inr refType) \<Rightarrow>
          if refType = RefTypeUnknown
          then \<lparr>events = t, returned = Some (Err_ref_not_found (FromRef opts))\<rparr>
          else clone_stage opts w refType t)"

text \<open>The library calls of a run, without the log lines, and the pushes among them.\<close>

fun is_call :: "event \<Rightarrow> bool" where
  "is_call (Log l) = False"
| "is_call e = True"

definition calls :: "run \<Rightarrow> event list" where
  "calls r = filter is_call (events r)"

fun pushes :: "event list \<Rightarrow> PushOptions list" where
  "pushes [] = []"
| "pushes (Call_Push po # t) = po # pushes t"
| "pushes (e # t) = pushes t"


text \<open>The \<open>InsecureSkipTLS\<close> field of a call that goes over the network.\<close>

fun InsecureSkipTLS :: "event \<Rightarrow> bool option" where
  "InsecureSkipTLS (Call_List rem lo) = Some (lo_InsecureSkipTLS lo)"
| "InsecureSkipTLS (Call_PlainClone d co) = Some (co_InsecureSkipTLS co)"
| "InsecureSkipTLS (Call_Push po) = Some (po_InsecureSkipTLS po)"
| "InsecureSkipTLS e = None"

section \<open>The mirror script\<close>

text \<open>
  The shell script of the repository does the same promotion with the \<open>git\<close> command.
  The model starts after the arguments are parsed and validated (steps 1 and 2), with the
  variables the later steps read. Every command the script runs is an event, with its
  arguments; the exit status or the output of each command is a field of \<open>sh_world\<close>,
  one for each place of the script. The \<open>Error:\<close> and \<open>Warning:\<close> lines are events too;
  the progress lines are left out, but for the two that tell the paths of the last step
  apart.
\<close>

record script_vars =
  SOURCE_REPO_URL :: string
  DEST_REPO_URL :: string
  SOURCE_REF :: string
  LOCAL_CLONE_DIR :: string
  SOURCE_REPO_URL_AUTH :: string
  DEST_REPO_URL_AUTH :: string

datatype command =
    Test_d string
  | Rm_rf string
  | Git_clone string string
  | Cd string
  | Git_show_ref_verify string
  | Git_rev_parse string
  | Date_s
  | Git_branch string string
  | Git_remote_add string string
  | Git_remote_set_url string string
  | Git_ls_remote string string
  | Git_push string string
  | Git_branch_d string
  | Git_push_delete string string

datatype message =
    Warning_dir_exists string
  | Error_remove_existing string
  | Error_clone
  | Error_cd string
  | Error_ref_not_found string
  | Error_resolve string
  | Error_local_branch
  | Error_remote
  | Error_push_objects nat
  | Error_init_main string nat
  | Error_push_ref string
  | Warning_branch_delete string string
  | No_remote_temp_branch
  | Warning_rm string
  | Operation_completed

datatype sh_event = Run command | Echo message

record sh_world =
  test_d :: bool
  rm_rf_existing :: nat
  git_clone :: nat
  cd_clone_dir :: nat
  show_ref_tag :: nat
  rev_parse_tag :: "nat \<times> string"
  show_ref_head :: nat
  rev_parse_head :: "nat \<times> string"
  date_s :: string
  git_branch :: nat
  remote_add :: nat
  remote_set_url :: nat
  ls_remote :: "string list"
  push_objects :: nat
  push_main_init :: nat
  push_ref :: nat
  branch_d :: nat
  push_delete :: nat
  rm_rf_clone :: nat

record sh_run =
  sh_events :: "sh_event list"
  exit_status :: nat

text \<open>\<open>grep -q word\<close> on the lines of a command's output.\<close>

definition grep_q :: "string \<Rightarrow> string list \<Rightarrow> bool" where
  "grep_q word lines = list_ex (\<lambda>l. Contains l word) lines"

text \<open>
  Step 10. \<open>git push --delete ... || true\<close> always has status 0, so the warning after it
  is never printed. The script ends with the status of its last \<open>echo\<close>.
\<close>

definition step10 :: "script_vars \<Rightarrow> sh_world \<Rightarrow> string \<Rightarrow> string \<Rightarrow> sh_event list \<Rightarrow> sh_run" where
  "step10 v w TEMP_LOCAL_BRANCH_NAME REMOTE_TEMP_BRANCH_FOR_OBJECTS t =
     (let t1 = t @ [Run (Git_branch_d TEMP_LOCAL_BRANCH_NAME)]
                 @ (if branch_d w \<noteq> 0
                    then [Echo (Warning_branch_delete (LOCAL_CLONE_DIR v) TEMP_LOCAL_BRANCH_NAME)]
                    else []);
          t2 = (if REMOTE_TEMP_BRANCH_FOR_OBJECTS \<noteq> []
                then t1 @ [Run (Git_push_delete ''destination'' REMOTE_TEMP_BRANCH_FOR_OBJECTS)]
                else t1 @ [Echo No_remote_temp_branch]);
          t3 = t2 @ [Run (Cd ''..''), Run (Rm_rf (LOCAL_CLONE_DIR v))]
                 @ (if rm_rf_clone w \<noteq> 0 then [Echo (Warning_rm (LOCAL_CLONE_DIR v))] else [])
      in \<lparr>sh_events = t3 @ [Echo Operation_completed], exit_status = 0\<rparr>)"

text \<open>Step 9: the original tag or branch is pushed.\<close>

definition step9 ::
  "script_vars \<Rightarrow> sh_world \<Rightarrow> string \<Rightarrow> string \<Rightarrow> string \<Rightarrow> sh_event list \<Rightarrow> sh_run" where
  "step9 v w REF_TYPE TEMP_LOCAL_BRANCH_NAME REMOTE_TEMP_BRANCH_FOR_OBJECTS t =
     (let t1 = (if REF_TYPE = ''tag''
                then t @ [Run (Git_push ''destination'' (''refs/tags/'' @ SOURCE_REF v))]
                else if REF_TYPE = ''branch''
                then t @ [Run (Git_push ''destination'' (''refs/heads/'' @ SOURCE_REF v))]
                else t);
          status = (if REF_TYPE = ''tag'' \<or> REF_TYPE = ''branch'' then push_ref w else 0)
      in if status \<noteq> 0
         then \<lparr>sh_events = t1 @ [Echo (Error_push_ref (SOURCE_REF v))], exit_status = 1\<rparr>
         else step10 v w TEMP_LOCAL_BRANCH_NAME REMOTE_TEMP_BRANCH_FOR_OBJECTS t1)"

text \<open>Step 8: the commit objects are pushed, by one of two ways.\<close>

definition step8 :: "script_vars \<Rightarrow> sh_world \<Rightarrow> string \<Rightarrow> string \<Rightarrow> sh_event list \<Rightarrow> sh_run" where
  "step8 v w REF_TYPE TEMP_LOCAL_BRANCH_NAME t =
     (let TARGET_MAIN_BRANCH = ''main'';
          REMOTE_TEMP_BRANCH_FOR_OBJECTS = ''refs/heads/mirror-objects-'' @ TEMP_LOCAL_BRANCH_NAME;
          t1 = t @ [Run (Git_ls_remote (DEST_REPO_URL_AUTH v) (''refs/heads/'' @ TARGET_MAIN_BRANCH))]
      in if grep_q TARGET_MAIN_BRANCH (ls_remote w) then
           (let t2 = t1 @ [Run (Git_push ''destination''
                                 (TEMP_LOCAL_BRANCH_NAME @ '':'' @ REMOTE_TEMP_BRANCH_FOR_OBJECTS))]
            in if push_objects w \<noteq> 0
               then \<lparr>sh_events = t2 @ [Echo (Error_push_objects (push_objects w))],
                     exit_status = 1\<rparr>
               else step9 v w REF_TYPE TEMP_LOCAL_BRANCH_NAME REMOTE_TEMP_BRANCH_FOR_OBJECTS t2)
         else
           (let t2 = t1 @ [Run (Git_push ''destination''
                                 (TEMP_LOCAL_BRANCH_NAME @ '':'' @ ''refs/heads/'' @ TARGET_MAIN_BRANCH))]
            in if push_main_init w \<noteq> 0
               then \<lparr>sh_events = t2 @ [Echo (Error_init_main TARGET_MAIN_BRANCH (push_main_init w))],
                     exit_status = 1\<rparr>
               else step9 v w REF_TYPE TEMP_LOCAL_BRANCH_NAME [] t2))"

text \<open>Steps 6 and 7: the local temporary branch and the remote named \<open>destination\<close>.\<close>

definition step6 :: "script_vars \<Rightarrow> sh_world \<Rightarrow> string \<Rightarrow> string \<Rightarrow> sh_event list \<Rightarrow> sh_run" where
  "step6 v w REF_TYPE COMMIT_ID_TO_PUSH t =
     (let TEMP_LOCAL_BRANCH_NAME = ''temp-mirror-local-'' @ date_s w;
          t1 = t @ [Run Date_s, Run (Git_branch TEMP_LOCAL_BRANCH_NAME COMMIT_ID_TO_PUSH)]
      in if git_branch w \<noteq> 0
         then \<lparr>sh_events = t1 @ [Echo Error_local_branch], exit_status = 1\<rparr>
         else
           (let t2 = t1 @ [Run (Git_remote_add ''destination'' (DEST_REPO_URL_AUTH v))]
                       @ (if remote_add w \<noteq> 0
                          then [Run (Git_remote_set_url ''destination'' (DEST_REPO_URL_AUTH v))]
                          else []);
                status = (if remote_add w \<noteq> 0 then remote_set_url w else 0)
            in if status \<noteq> 0
               then \<lparr>sh_events = t2 @ [Echo Error_remote], exit_status = 1\<rparr>
               else step8 v w REF_TYPE TEMP_LOCAL_BRANCH_NAME t2))"

text \<open>
  Step 5: the reference is looked up in the clone, as a tag first. The test after the
  \<open>if\<close> reads the status of the last command of the branch taken, the \<open>git rev-parse\<close>.
\<close>

definition step5 :: "script_vars \<Rightarrow> sh_world \<Rightarrow> sh_event list \<Rightarrow> sh_run" where
  "step5 v w t =
     (let t1 = t @ [Run (Git_show_ref_verify (''refs/tags/'' @ SOURCE_REF v))]
      in if show_ref_tag w = 0 then
           (let t2 = t1 @ [Run (Git_rev_parse (''refs/tags/'' @ SOURCE_REF v))]
            in if fst (rev_parse_tag w) \<noteq> 0
               then \<lparr>sh_events = t2 @ [Echo (Error_resolve (SOURCE_REF v))], exit_status = 1\<rparr>
               else step6 v w ''tag'' (snd (rev_parse_tag w)) t2)
         else
           (let t2 = t1 @ [Run (Git_show_ref_verify (''refs/heads/'' @ SOURCE_REF v))]
            in if show_ref_head w = 0 then
                 (let t3 = t2 @ [Run (Git_rev_parse (''refs/heads/'' @ SOURCE_REF v))]
                  in if fst (rev_parse_head w) \<noteq> 0
                     then \<lparr>sh_events = t3 @ [Echo (Error_resolve (SOURCE_REF v))],
                           exit_status = 1\<rparr>
                     else step6 v w ''branch'' (snd (rev_parse_head w)) t3)
               else \<lparr>sh_events = t2 @ [Echo (Error_ref_not_found (SOURCE_REF v))],
                     exit_status = 1\<rparr>))"

text \<open>Step 4: the clone, and the change into its directory.\<close>

definition step4 :: "script_vars \<Rightarrow> sh_world \<Rightarrow> sh_event list \<Rightarrow> sh_run" where
  "step4 v w t =
     (let t1 = t @ [Run (Git_clone (SOURCE_REPO_URL_AUTH v) (LOCAL_CLONE_DIR v))]
      in if git_clone w \<noteq> 0
         then \<lparr>sh_events = t1 @ [Echo Error_clone], exit_status = 1\<rparr>
         else
           (let t2 = t1 @ [Run (Cd (LOCAL_CLONE_DIR v))]
            in if cd_clone_dir w \<noteq> 0
               then \<lparr>sh_events = t2 @ [Echo (Error_cd (LOCAL_CLONE_DIR v))], exit_status = 1\<rparr>
               else step5 v w t2))"

text \<open>Step 3, and the script from there on.\<close>

definition mirror_script :: "script_vars \<Rightarrow> sh_world \<Rightarrow> sh_run" where
  "mirror_script v w =
     (let t = [Run (Test_d (LOCAL_CLONE_DIR v))]
      in if test_d w then
           (let t1 = t @ [Echo (Warning_dir_exists (LOCAL_CLONE_DIR v)),
                          Run (Rm_rf (LOCAL_CLONE_DIR v))]
            in if rm_rf_existing w \<noteq> 0
               then \<lparr>sh_events = t1 @ [Echo (Error_remove_existing (LOCAL_CLONE_DIR v))],
                     exit_status = 1\<rparr>
               else step4 v w t1)
         else step4 v w t)"

text \<open>
  The commands of a run, the ref-specs it pushed, and what it ran after the clone.
\<close>

fun commands :: "sh_event list \<Rightarrow> command list" where
  "commands [] = []"
| "commands (Run c # t) = c # commands t"
| "commands (Echo m # t) = commands t"

fun pushed :: "command list \<Rightarrow> string list" where
  "pushed [] = []"
| "pushed (Git_push r spec # t) = spec # pushed t"
| "pushed (c # t) = pushed t"

fun is_clone :: "command \<Rightarrow> bool" where
  "is_clone (Git_clone u d) = True"
| "is_clone c = False"

definition after_clone :: "sh_run \<Rightarrow> command list" where
  "after_clone r = dropWhile (\<lambda>c. \<not> is_clone c) (commands (sh_events r))"

text \<open>
  The script names the clone directory by the text of \<open>LOCAL_CLONE_DIR\<close>, once before and
  once after it has changed its working directory. Which directory a command touches is
  that text resolved against the working directory of the moment. A directory is a list
  of names from the root; a path is split at its slashes, an empty name and \<open>.\<close> are
  skipped, \<open>..\<close> is the parent (what \<open>cd\<close> does with the logical path), and a path that
  starts with a slash is resolved from the root. (There are no symbolic links, \<open>CDPATH\<close>
  is not set, and the parent directory can be entered.)
\<close>

fun split_path :: "string \<Rightarrow> string list" where
  "split_path [] = [[]]"
| "split_path (x # s) =
     (if x = CHR ''/'' then [] # split_path s
      else (x # hd (split_path s)) # tl (split_path s))"

fun walk :: "string list \<Rightarrow> string list \<Rightarrow> string list" where
  "walk cwd [] = cwd"
| "walk cwd (n # ns) =
     (if n = [] \<or> n = ''.'' then walk cwd ns
      else if n = ''..'' then walk (butlast cwd) ns
      else walk (cwd @ [n]) ns)"

definition is_absolute :: "string \<Rightarrow> bool" where
  "is_absolute p = HasPrefix p ''/''"

definition resolve :: "string list \<Rightarrow> string \<Rightarrow> string list" where
  "resolve cwd p = walk (if is_absolute p then [] else cwd) (split_path p)"

text \<open>
  A single name: not empty, without a slash, neither \<open>.\<close> nor \<open>..\<close>, and not read as an
  option by \<open>cd\<close> or \<open>rm\<close>. The default \<open>temp_clone_dir_<timestamp>\<close> is one.
\<close>

definition simple_name :: "string \<Rightarrow> bool" where
  "simple_name d =
     (d \<noteq> [] \<and> CHR ''/'' \<notin> set d \<and> d \<noteq> ''.'' \<and> d \<noteq> ''..'' \<and> hd d \<noteq> CHR ''-'')"

text \<open>
  What the commands of a run do to directories, read from the first command on in the
  working directory \<open>cwd\<close>: \<open>cd\<close> changes the working directory (a \<open>cd\<close> of the script that
  fails is the last command of its run), \<open>git clone\<close> creates the directory it is given and
  \<open>rm -rf\<close> removes the one it is given. No other command of the script names a directory.
\<close>

datatype fs_effect = Clone_into "string list" | Remove "string list"

fun cwd_after :: "string list \<Rightarrow> command list \<Rightarrow> string list" where
  "cwd_after cwd [] = cwd"
| "cwd_after cwd (Cd d # cs) = cwd_after (resolve cwd d) cs"
| "cwd_after cwd (c # cs) = cwd_after cwd cs"

fun fs_effects :: "string list \<Rightarrow> command list \<Rightarrow> fs_effect list" where
  "fs_effects cwd [] = []"
| "fs_effects cwd (Cd d # cs) = fs_effects (resolve cwd d) cs"
| "fs_effects cwd (Git_clone u d # cs) = Clone_into (resolve cwd d) # fs_effects cwd cs"
| "fs_effects cwd (Rm_rf d # cs) = Remove (resolve cwd d) # fs_effects cwd cs"
| "fs_effects cwd (c # cs) = fs_effects cwd cs"

section \<open>Example inputs\<close>

definition opts_v1 :: GitOperationOptions where
  "opts_v1 =
     \<lparr>FromRepoURL = ''https://src/iris'', FromRef = ''v1'', FromAuth = None,
      ToRepoURL = ''https://dst/iris'', ToTag = [],
      ToAuth = Some (BasicAuthMethod ''oauth2'' ''t''),
      OutputDir = ''/tmp/w'', ProgressWriter = None, OnTagExistsBehavior = ''error''\<rparr>"

definition world_ok :: world where
  "world_ok =
     \<lparr>list_source = Inr [''HEAD'', ''refs/heads/main'', ''refs/tags/v1''],
      plain_clone = None, plain_open = None, create_remote = None, get_remote = None,
      reference_origin = Inr ''c0'', reference_tag = Inr ''c1'',
      push = None, list_target = Inr [''refs/heads/main'']\<rparr>"

definition world_unpack_ok :: world where
  "world_unpack_ok =
     world_ok \<lparr>push := Some (OtherError
        ''send-pack: decode report-status: unknown channel unpack ok'')\<rparr>"

definition world_tag_there :: world where
  "world_tag_there =
     world_ok \<lparr>push := Some NoErrAlreadyUpToDate,
               list_target := Inr [''refs/heads/main'', ''refs/heads/v1'', ''refs/tags/v1'']\<rparr>"




definition opts_v2 :: GitOperationOptions where
  "opts_v2 = opts_v1 \<lparr>FromRef := ''v2''\<rparr>"

definition opts_skip :: GitOperationOptions where
  "opts_skip = opts_v1 \<lparr>OnTagExistsBehavior := ''skip''\<rparr>"

definition opts_overwrite :: GitOperationOptions where
  "opts_overwrite = opts_v1 \<lparr>OnTagExistsBehavior := ''overwrite''\<rparr>"

definition world_branch_there :: world where
  "world_branch_there =
     world_ok \<lparr>push := Some NoErrAlreadyUpToDate,
               list_target := Inr [''refs/heads/main'', ''refs/heads/v1'']\<rparr>"

definition world_empty_target :: world where
  "world_empty_target = world_ok \<lparr>list_target := Inr []\<rparr>"

definition vars_v1 :: script_vars where
  "vars_v1 =
     \<lparr>SOURCE_REPO_URL = ''https://src/iris'', DEST_REPO_URL = ''https://dst/iris'',
      SOURCE_REF = ''v1'', LOCAL_CLONE_DIR = ''temp_clone_dir'',
      SOURCE_REPO_URL_AUTH = ''https://oauth2:s@src/iris'',
      DEST_REPO_URL_AUTH = ''https://oauth2:t@dst/iris''\<rparr>"

definition sh_world_ok :: sh_world where
  "sh_world_ok =
     \<lparr>test_d = False, rm_rf_existing = 0, git_clone = 0, cd_clone_dir = 0,
      show_ref_tag = 0, rev_parse_tag = (0, ''c1''), show_ref_head = 1,
      rev_parse_head = (128, []), date_s = ''1700000000'', git_branch = 0,
      remote_add = 0, remote_set_url = 0,
      ls_remote = [''c0'' @ [CHR 0x09] @ ''refs/heads/main''],
      push_objects = 0, push_main_init = 0, push_ref = 0, branch_d = 0, push_delete = 0,
      rm_rf_clone = 0\<rparr>"

definition sh_world_fresh :: sh_world where
  "sh_world_fresh = sh_world_ok \<lparr>ls_remote := []\<rparr>"

definition sh_world_push_fails :: sh_world where
  "sh_world_push_fails = sh_world_ok \<lparr>push_ref := 1\<rparr>"

definition sh_world_rm_fails :: sh_world where
  "sh_world_rm_fails = sh_world_ok \<lparr>rm_rf_clone := 1\<rparr>"



definition vars_nested :: script_vars where
  "vars_nested = vars_v1 \<lparr>LOCAL_CLONE_DIR := ''work/clone''\<rparr>"

section \<open>Classification\<close>

lemma HasPrefix_append: "HasPrefix (p @ s) p"
  by (induction p) auto

lemma HasPrefix_drop: "HasPrefix r p \<Longrightarrow> p @ drop (length p) r = r"
  by (induction r p rule: HasPrefix.induct) auto

lemma Short_tag: "Short (NewTagReferenceName n) = n"
  by (simp add: Short_def NewTagReferenceName_def)

lemma IsTag_tag: "IsTag (NewTagReferenceName n)"
  by (simp add: IsTag_def NewTagReferenceName_def)

lemma split_refs_eq:
  "split_refs refs tags branches =
     (tags @ map Short (filter IsTag refs),
      branches @ map Short (filter (\<lambda>r. \<not> IsTag r \<and> IsBranch r) refs))"
  by (induction refs arbitrary: tags branches) auto

lemma tag_listed:
  assumes "NewTagReferenceName n \<in> set refs"
  shows "n \<in> set (fst (split_refs refs [] []))"
proof -
  have "NewTagReferenceName n \<in> set (filter IsTag refs)"
    using assms by (simp add: IsTag_tag)
  then have "Short (NewTagReferenceName n) \<in> Short ` set (filter IsTag refs)"
    by (rule imageI)
  then show ?thesis
    by (simp add: split_refs_eq Short_tag)
qed

lemma listed_tag:
  assumes "n \<in> set (fst (split_refs refs [] []))"
  shows "NewTagReferenceName n \<in> set refs"
proof -
  from assms obtain r where r: "r \<in> set refs" "IsTag r" "n = Short r"
    by (auto simp: split_refs_eq)
  from r(2) have "''refs/tags/'' @ drop (length ''refs/tags/'') r = r"
    unfolding IsTag_def by (rule HasPrefix_drop)
  moreover from r(2,3) have "n = drop (length ''refs/tags/'') r"
    by (simp add: IsTag_def Short_def)
  ultimately show ?thesis
    using r(1) by (simp add: NewTagReferenceName_def)
qed

lemma listed_branch:
  assumes "n \<in> set (snd (split_refs refs [] []))"
  shows "NewBranchReferenceName n \<in> set refs"
proof -
  from assms obtain r where r: "r \<in> set refs" "\<not> IsTag r" "IsBranch r" "n = Short r"
    by (auto simp: split_refs_eq)
  from r(3) have "''refs/heads/'' @ drop (length ''refs/heads/'') r = r"
    unfolding IsBranch_def by (rule HasPrefix_drop)
  moreover from r(2,3,4) have "n = drop (length ''refs/heads/'') r"
    by (simp add: IsTag_def IsBranch_def Short_def)
  ultimately show ?thesis
    using r(1) by (simp add: NewBranchReferenceName_def)
qed

lemma absent_unknown:
  assumes "NewTagReferenceName n \<notin> set refs" and "NewBranchReferenceName n \<notin> set refs"
  shows "checkRemoteRefExistence url n a (Inr refs) =
           ([Log (Log_fetching_refs url), Call_List (origin url) (listOptions a),
             Log (Log_ref_unrecognised n)], Inr RefTypeUnknown)"
proof -
  have "n \<notin> set (fst (split_refs refs [] []))" "n \<notin> set (snd (split_refs refs [] []))"
    using assms listed_tag listed_branch by blast+
  then show ?thesis
    by (auto simp: checkRemoteRefExistence_def Let_def split: prod.splits)
qed

text \<open>
  C2. When the reference list of a remote holds a name both as \<open>refs/tags/<name>\<close> and
  as \<open>refs/heads/<name>\<close>, \<open>checkRemoteRefExistence\<close> classifies the name as a tag:
  the tag slice is searched before the branch slice.
\<close>

theorem C2_tag_wins:
  assumes "NewTagReferenceName n \<in> set refs"
    and "NewBranchReferenceName n \<in> set refs"
  shows "snd (checkRemoteRefExistence url n auth (Inr refs)) = Inr RefTypeTag"
proof -
  have "n \<in> set (fst (split_refs refs [] []))"
    using assms(1) by (rule tag_listed)
  then show ?thesis
    by (auto simp add: checkRemoteRefExistence_def Let_def split: prod.splits)
qed

theorem C2_tag_wins_witness:
  "NewTagReferenceName ''v1'' \<in> set [''refs/heads/v1'', ''refs/tags/v1'']
   \<and> NewBranchReferenceName ''v1'' \<in> set [''refs/heads/v1'', ''refs/tags/v1'']
   \<and> snd (checkRemoteRefExistence ''https://src'' ''v1'' None
            (Inr [''refs/heads/v1'', ''refs/tags/v1''])) = Inr RefTypeTag"
proof -
  have t: "NewTagReferenceName ''v1'' \<in> set [''refs/heads/v1'', ''refs/tags/v1'']"
    by (simp add: NewTagReferenceName_def)
  have b: "NewBranchReferenceName ''v1'' \<in> set [''refs/heads/v1'', ''refs/tags/v1'']"
    by (simp add: NewBranchReferenceName_def)
  from C2_tag_wins [OF t b, of "''https://src''" None] t b show ?thesis
    by blast
qed

section \<open>The shape of a run of \<open>PerformGitOperation\<close>\<close>

lemmas run_defs =
  PerformGitOperation_def clone_stage_def remote_stage_def push_stage_def push_result_def
  checkRemoteRefExistence_def target_tag_def unpack_ok_def Let_def
  origin_def listOptions_def cloneOptions_def pushOptions_def targetRemoteConfig_def
  IsTag_def IsBranch_def Short_def NewTagReferenceName_def NewBranchReferenceName_def
  calls_def

lemma pushes_append: "pushes (a @ b) = pushes a @ pushes b"
  by (induction a rule: pushes.induct) auto


lemma pushes_filter: "pushes (filter is_call t) = pushes t"
  by (induction t rule: pushes.induct) auto

lemma check_events:
  "fst (checkRemoteRefExistence url n a l) =
     [Log (Log_fetching_refs url), Call_List (origin url) (listOptions a)]
     @ (case snd (checkRemoteRefExistence url n a l) of
          Inl e \<Rightarrow> []
        | Inr RefTypeTag \<Rightarrow> [Log (Log_ref_is_tag n)]
        | Inr RefTypeBranch \<Rightarrow> [Log (Log_ref_is_branch n)]
        | Inr RefTypeUnknown \<Rightarrow> [Log (Log_ref_unrecognised n)])"
  by (auto simp: checkRemoteRefExistence_def Let_def split: sum.splits prod.splits)

lemma check_pushes: "checkRemoteRefExistence url n a l = (t, r) \<Longrightarrow> pushes t = []"
  using check_events [of url n a l] by (auto split: sum.splits RefType.splits)



lemma check_tls:
  "checkRemoteRefExistence url n a l = (t, r) \<Longrightarrow> e \<in> set t \<Longrightarrow> InsecureSkipTLS e \<noteq> Some False"
  using check_events [of url n a l]
  by (auto simp: listOptions_def split: sum.splits RefType.splits)

lemma not_unpack_ok: "\<not> Contains (Error NoErrAlreadyUpToDate) unpack_ok"
  by (simp add: unpack_ok_def)

lemma pushes_push_result: "pushes (events (push_result opts w t)) = pushes t"
  by (auto simp add: push_result_def Let_def pushes_append check_pushes
        split: option.splits prod.splits sum.splits simp del: Error.simps Contains.simps)


lemma prefix_push_result: "prefix s t \<Longrightarrow> prefix s (events (push_result opts w t))"
proof -
  have "prefix t (events (push_result opts w t))"
    by (auto simp add: push_result_def Let_def
          split: option.splits prod.splits sum.splits simp del: Error.simps Contains.simps)
  then show "prefix s t \<Longrightarrow> prefix s (events (push_result opts w t))"
    using prefix_order.trans by blast
qed

text \<open>
  The push stage either stops before the push (the local reference is not found), or
  pushes one ref-spec and hands over to \<open>push_result\<close>.
\<close>

lemma push_stage_cases:
  "pushes (events (push_stage opts w k t)) = pushes t
   \<or> (\<exists>t' h. pushes t' = pushes t
         \<and> push_stage opts w k t =
             push_result opts w
               (t' @ [Call_Push (pushOptions opts
                        (if ToTag opts = [] then [''refs/tags/*:refs/tags/*'']
                         else [h @ '':refs/tags/'' @ ToTag opts]))]))"
proof (cases "ToTag opts = []")
  case True
  let ?t' = "t @ [Log Log_push_all_tags, Log (Log_pushing (ToRepoURL opts))]"
  have "pushes ?t' = pushes t \<and> push_stage opts w k t =
          push_result opts w
            (?t' @ [Call_Push (pushOptions opts
                      (if ToTag opts = [] then [''refs/tags/*:refs/tags/*'']
                       else [[] @ '':refs/tags/'' @ ToTag opts]))])"
    using True by (simp add: push_stage_def pushes_append)
  then show ?thesis by blast
next
  case False
  let ?t2 = "(if k = RefTypeTag
              then (t @ [Call_Reference (''refs/remotes/origin/'' @ FromRef opts)])
                   @ [Call_Reference (NewTagReferenceName (FromRef opts))]
              else t @ [Call_Reference (''refs/remotes/origin/'' @ FromRef opts)])"
  show ?thesis
  proof (cases "if k = RefTypeTag then reference_tag w else reference_origin w")
    case (Inl e)
    then have "pushes (events (push_stage opts w k t)) = pushes t"
      using False by (simp add: push_stage_def Let_def pushes_append)
    then show ?thesis ..
  next
    case (Inr hash)
    let ?t' = "?t2 @ [Log (Log_push_hash_to_tag hash (ToTag opts)),
                      Log (Log_pushing (ToRepoURL opts))]"
    have "pushes ?t' = pushes t \<and> push_stage opts w k t =
            push_result opts w
              (?t' @ [Call_Push (pushOptions opts
                        (if ToTag opts = [] then [''refs/tags/*:refs/tags/*'']
                         else [hash @ '':refs/tags/'' @ ToTag opts]))])"
      using False Inr by (simp add: push_stage_def Let_def pushes_append)
    then show ?thesis by blast
  qed
qed

lemma remote_stage_next:
  "pushes (events (remote_stage opts w k t)) = pushes t
   \<or> (\<exists>t'. pushes t' = pushes t \<and> remote_stage opts w k t = push_stage opts w k t')"
proof -
  let ?t1 = "t @ [Log (Log_configuring_remote (ToRepoURL opts)),
                  Call_CreateRemote (targetRemoteConfig opts)]"
  let ?t2 = "?t1 @ [Log (Log_remote_exists (rc_Name (targetRemoteConfig opts))),
                    Call_Remote (rc_Name (targetRemoteConfig opts))]"
  have p: "pushes ?t1 = pushes t" "pushes ?t2 = pushes t"
    by (simp_all add: pushes_append)
  have "remote_stage opts w k t = push_stage opts w k ?t1
        \<or> remote_stage opts w k t = push_stage opts w k ?t2
        \<or> pushes (events (remote_stage opts w k t)) = pushes t"
    by (auto simp: remote_stage_def Let_def pushes_append split: option.splits)
  with p show ?thesis by metis
qed

lemma clone_stage_next:
  "pushes (events (clone_stage opts w k t)) = pushes t
   \<or> (\<exists>t'. pushes t' = pushes t \<and> clone_stage opts w k t = remote_stage opts w k t')"
proof -
  let ?t2 = "(if k = RefTypeTag then t @ [Log (Log_clone_tag (FromRef opts))]
              else if k = RefTypeBranch then t @ [Log (Log_clone_branch (FromRef opts))]
              else t)
             @ [Log (Log_cloning (FromRepoURL opts) (OutputDir opts)),
                Call_PlainClone (OutputDir opts) (cloneOptions opts k)]"
  let ?a = "?t2 @ [Log (Log_cloned (OutputDir opts))]"
  let ?b = "(?t2 @ [Log (Log_dir_exists_open (OutputDir opts)), Call_PlainOpen (OutputDir opts)])
              @ [Log (Log_warn_clone_skipped (OutputDir opts)), Log (Log_cloned (OutputDir opts))]"
  have p: "pushes ?a = pushes t" "pushes ?b = pushes t"
    by (simp_all add: pushes_append)
  have "clone_stage opts w k t = remote_stage opts w k ?a
        \<or> clone_stage opts w k t = remote_stage opts w k ?b
        \<or> pushes (events (clone_stage opts w k t)) = pushes t"
    by (auto simp: clone_stage_def Let_def pushes_append split: option.splits)
  with p show ?thesis by metis
qed

lemma operation_next:
  "pushes (events (PerformGitOperation opts w)) = []
   \<or> (\<exists>t k. pushes t = [] \<and> PerformGitOperation opts w = clone_stage opts w k t)"
proof -
  obtain t r where c:
    "checkRemoteRefExistence (FromRepoURL opts) (FromRef opts) (FromAuth opts) (list_source w)
       = (t, r)"
    by (cases "checkRemoteRefExistence (FromRepoURL opts) (FromRef opts) (FromAuth opts)
                 (list_source w)")
  have p: "pushes t = []"
    using c by (rule check_pushes)
  have "(\<exists>k. PerformGitOperation opts w = clone_stage opts w k t)
        \<or> pushes (events (PerformGitOperation opts w)) = []"
    using c p by (auto simp: PerformGitOperation_def split: sum.splits)
  with p show ?thesis by blast
qed

text \<open>
  A run pushes nothing, or it pushes exactly once, one ref-spec that names a tag of the
  destination, and ends in \<open>push_result\<close>.
\<close>

lemma operation_cases:
  "pushes (events (PerformGitOperation opts w)) = []
   \<or> (\<exists>t h. pushes t = []
         \<and> PerformGitOperation opts w =
             push_result opts w
               (t @ [Call_Push (pushOptions opts
                       (if ToTag opts = [] then [''refs/tags/*:refs/tags/*'']
                        else [h @ '':refs/tags/'' @ ToTag opts]))]))"
proof (cases "pushes (events (PerformGitOperation opts w)) = []")
  case True
  then show ?thesis ..
next
  case False
  with operation_next [of opts w] obtain t1 k where 1:
    "pushes t1 = []" "PerformGitOperation opts w = clone_stage opts w k t1"
    by blast
  with False clone_stage_next [of opts w k t1] obtain t2 where 2:
    "pushes t2 = []" "PerformGitOperation opts w = remote_stage opts w k t2"
    by auto
  with False remote_stage_next [of opts w k t2] obtain t3 where 3:
    "pushes t3 = []" "PerformGitOperation opts w = push_stage opts w k t3"
    by auto
  with False push_stage_cases [of opts w k t3] show ?thesis
    by auto
qed

lemma operation_ends:
  assumes "pushes (events (PerformGitOperation opts w)) \<noteq> []"
  obtains t where "PerformGitOperation opts w = push_result opts w t"
  using operation_cases [of opts w] assms by blast

lemma operation_pushes:
  "pushes (events (PerformGitOperation opts w)) = []
   \<or> (\<exists>h. pushes (events (PerformGitOperation opts w)) =
             [pushOptions opts
                (if ToTag opts = [] then [''refs/tags/*:refs/tags/*'']
                 else [h @ '':refs/tags/'' @ ToTag opts])])"
  using operation_cases [of opts w]
  by (auto simp: pushes_push_result pushes_append)

section \<open>The source reference is not found\<close>

text \<open>
  C6. When the reference list of the source holds the name neither as a tag nor as a
  branch, \<open>PerformGitOperation\<close> returns the not-found error, and the only call it has
  made is the listing of the source: nothing is cloned or opened, no remote is added,
  nothing is pushed.
\<close>

theorem C6_unresolved_aborts:
  assumes "list_source w = Inr refs"
    and "NewTagReferenceName (FromRef opts) \<notin> set refs"
    and "NewBranchReferenceName (FromRef opts) \<notin> set refs"
  shows "returned (PerformGitOperation opts w) = Some (Err_ref_not_found (FromRef opts))
       \<and> calls (PerformGitOperation opts w) =
           [Call_List (origin (FromRepoURL opts)) (listOptions (FromAuth opts))]"
  using absent_unknown [OF assms(2,3), of "FromRepoURL opts" "FromAuth opts"] assms(1)
  by (simp add: PerformGitOperation_def calls_def)

theorem C6_unresolved_aborts_witness:
  "list_source world_ok = Inr [''HEAD'', ''refs/heads/main'', ''refs/tags/v1'']
   \<and> NewTagReferenceName (FromRef opts_v2) \<notin> set [''HEAD'', ''refs/heads/main'', ''refs/tags/v1'']
   \<and> NewBranchReferenceName (FromRef opts_v2)
        \<notin> set [''HEAD'', ''refs/heads/main'', ''refs/tags/v1'']
   \<and> returned (PerformGitOperation opts_v2 world_ok) = Some (Err_ref_not_found ''v2'')
   \<and> calls (PerformGitOperation opts_v2 world_ok) =
        [Call_List (origin ''https://src/iris'') (listOptions None)]"
proof -
  have a: "list_source world_ok = Inr [''HEAD'', ''refs/heads/main'', ''refs/tags/v1'']"
    by (simp add: world_ok_def)
  have b: "NewTagReferenceName (FromRef opts_v2)
        \<notin> set [''HEAD'', ''refs/heads/main'', ''refs/tags/v1'']"
    by (simp add: NewTagReferenceName_def opts_v2_def opts_v1_def)
  have c: "NewBranchReferenceName (FromRef opts_v2)
        \<notin> set [''HEAD'', ''refs/heads/main'', ''refs/tags/v1'']"
    by (simp add: NewBranchReferenceName_def opts_v2_def opts_v1_def)
  from C6_unresolved_aborts [OF a b c] a b c show ?thesis
    by (simp add: opts_v2_def opts_v1_def)
qed

section \<open>The result of the push\<close>

lemma push_result_unpack_ok:
  "push w = Some e \<Longrightarrow> Contains (Error e) unpack_ok \<Longrightarrow> returned (push_result opts w t) = None"
  by (simp add: push_result_def)

lemma push_result_up_to_date:
  assumes "push w = Some NoErrAlreadyUpToDate"
    and "snd (checkRemoteRefExistence (ToRepoURL opts) (target_tag opts) (ToAuth opts)
               (list_target w)) = Inr k"
  shows "returned (push_result opts w t) =
           (if k = RefTypeTag then
              (if OnTagExistsBehavior opts = ''error'' then Some (Err_tag_exists (target_tag opts))
               else if OnTagExistsBehavior opts = ''skip'' then None
               else Some (Err_unknown_behavior (OnTagExistsBehavior opts)))
            else Some (Err_push None))"
proof -
  obtain t2 where c: "checkRemoteRefExistence (ToRepoURL opts) (target_tag opts) (ToAuth opts)
               (list_target w) = (t2, Inr k)"
    using assms(2) by (metis prod.collapse)
  show ?thesis
    by (simp add: push_result_def not_unpack_ok assms(1) c del: Error.simps Contains.simps)
qed

lemma push_result_skipped:
  assumes "push w = Some NoErrAlreadyUpToDate"
    and "snd (checkRemoteRefExistence (ToRepoURL opts) (target_tag opts) (ToAuth opts)
               (list_target w)) = Inr RefTypeTag"
    and "OnTagExistsBehavior opts = ''skip''"
  shows "last (events (push_result opts w t)) = Log (Log_tag_exists_skipped (target_tag opts))"
proof -
  obtain t2 where c: "checkRemoteRefExistence (ToRepoURL opts) (target_tag opts) (ToAuth opts)
               (list_target w) = (t2, Inr RefTypeTag)"
    using assms(2) by (metis prod.collapse)
  show ?thesis
    by (simp add: push_result_def not_unpack_ok assms(1,3) c del: Error.simps Contains.simps)
qed

text \<open>
  C5. When the push has been made and its error message contains the text
  \<open>decode report-status: unknown channel unpack ok\<close>, the operation returns no error.
\<close>

theorem C5_unpack_ok_is_success:
  assumes "pushes (events (PerformGitOperation opts w)) \<noteq> []"
    and "push w = Some e"
    and "Contains (Error e) unpack_ok"
  shows "returned (PerformGitOperation opts w) = None"
proof -
  from assms(1) obtain t where "PerformGitOperation opts w = push_result opts w t"
    by (rule operation_ends)
  then show ?thesis
    using push_result_unpack_ok [OF assms(2,3)] by simp
qed

theorem C5_unpack_ok_is_success_witness:
  "pushes (events (PerformGitOperation opts_v1 world_unpack_ok)) \<noteq> []
   \<and> push world_unpack_ok =
        Some (OtherError ''send-pack: decode report-status: unknown channel unpack ok'')
   \<and> Contains (Error (OtherError ''send-pack: decode report-status: unknown channel unpack ok''))
        unpack_ok
   \<and> returned (PerformGitOperation opts_v1 world_unpack_ok) = None"
proof -
  have a: "pushes (events (PerformGitOperation opts_v1 world_unpack_ok)) \<noteq> []"
    by (simp add: run_defs opts_v1_def world_unpack_ok_def world_ok_def)
  have b: "push world_unpack_ok =
        Some (OtherError ''send-pack: decode report-status: unknown channel unpack ok'')"
    by (simp add: world_unpack_ok_def)
  have c: "Contains (Error (OtherError
             ''send-pack: decode report-status: unknown channel unpack ok'')) unpack_ok"
    by (simp add: unpack_ok_def)
  from C5_unpack_ok_is_success [OF a b c] a b c show ?thesis by blast
qed

section \<open>The tag-conflict policy\<close>

lemma target_tag_policy: "target_tag (opts\<lparr>OnTagExistsBehavior := p\<rparr>) = target_tag opts"
  by (simp add: target_tag_def)

lemma pushOptions_policy:
  "pushOptions (opts\<lparr>OnTagExistsBehavior := p\<rparr>) specs = pushOptions opts specs"
  by (simp add: pushOptions_def)

lemma cloneOptions_policy: "cloneOptions (opts\<lparr>OnTagExistsBehavior := p\<rparr>) k = cloneOptions opts k"
  by (simp add: cloneOptions_def Let_def)

lemma targetRemoteConfig_policy:
  "targetRemoteConfig (opts\<lparr>OnTagExistsBehavior := p\<rparr>) = targetRemoteConfig opts"
  by (simp add: targetRemoteConfig_def)

lemmas policy_simps =
  target_tag_policy pushOptions_policy cloneOptions_policy targetRemoteConfig_policy

text \<open>
  The policy is read in \<open>push_result\<close> only: what holds of \<open>push_result\<close> for two values of
  the policy holds of the operation.
\<close>

lemma push_stage_lift:
  assumes "\<And>t. F (push_result (opts\<lparr>OnTagExistsBehavior := p\<rparr>) w t) = F (push_result opts w t)"
  shows "F (push_stage (opts\<lparr>OnTagExistsBehavior := p\<rparr>) w k t) = F (push_stage opts w k t)"
  by (simp add: push_stage_def Let_def policy_simps assms split: sum.splits)

lemma remote_stage_lift:
  assumes "\<And>t. F (push_result (opts\<lparr>OnTagExistsBehavior := p\<rparr>) w t) = F (push_result opts w t)"
  shows "F (remote_stage (opts\<lparr>OnTagExistsBehavior := p\<rparr>) w k t) = F (remote_stage opts w k t)"
  by (simp add: remote_stage_def Let_def policy_simps push_stage_lift [of F, OF assms]
        split: option.splits)

lemma clone_stage_lift:
  assumes "\<And>t. F (push_result (opts\<lparr>OnTagExistsBehavior := p\<rparr>) w t) = F (push_result opts w t)"
  shows "F (clone_stage (opts\<lparr>OnTagExistsBehavior := p\<rparr>) w k t) = F (clone_stage opts w k t)"
  by (simp add: clone_stage_def Let_def policy_simps remote_stage_lift [of F, OF assms]
        split: option.splits)

lemma operation_lift:
  assumes "\<And>t. F (push_result (opts\<lparr>OnTagExistsBehavior := p\<rparr>) w t) = F (push_result opts w t)"
  shows "F (PerformGitOperation (opts\<lparr>OnTagExistsBehavior := p\<rparr>) w)
           = F (PerformGitOperation opts w)"
  by (simp add: PerformGitOperation_def clone_stage_lift [of F, OF assms]
        split: sum.splits prod.splits)

lemma push_result_calls_policy:
  "calls (push_result (opts\<lparr>OnTagExistsBehavior := p\<rparr>) w t) = calls (push_result opts w t)"
  by (simp add: push_result_def calls_def Let_def policy_simps
        split: option.splits prod.splits sum.splits del: Error.simps Contains.simps)

lemma push_result_events_policy:
  "p \<noteq> ''skip'' \<Longrightarrow> OnTagExistsBehavior opts \<noteq> ''skip'' \<Longrightarrow>
   events (push_result (opts\<lparr>OnTagExistsBehavior := p\<rparr>) w t) = events (push_result opts w t)"
  by (simp add: push_result_def Let_def policy_simps
        split: option.splits prod.splits sum.splits del: Error.simps Contains.simps)

lemma push_result_not_consulted:
  assumes "\<not> (push w = Some NoErrAlreadyUpToDate
      \<and> snd (checkRemoteRefExistence (ToRepoURL opts) (target_tag opts) (ToAuth opts)
               (list_target w)) = Inr RefTypeTag)"
  shows "push_result (opts\<lparr>OnTagExistsBehavior := p\<rparr>) w t = push_result opts w t"
  using assms
  by (auto simp add: push_result_def Let_def policy_simps
        split: option.splits prod.splits sum.splits simp del: Error.simps Contains.simps)

lemma calls_policy:
  "calls (PerformGitOperation (opts\<lparr>OnTagExistsBehavior := p\<rparr>) w)
     = calls (PerformGitOperation opts w)"
  by (rule operation_lift) (rule push_result_calls_policy)

text \<open>
  C4. When the push has been made and reports \<open>NoErrAlreadyUpToDate\<close>, and the name
  (the destination tag, or the source name when none is given) is classified on the
  destination: if it is a tag, policy \<open>error\<close> makes the operation fail with the
  tag-exists error and policy \<open>skip\<close> makes it return no error, after logging that the
  push was skipped; if it is not a tag, the operation fails with the push error and
  the run is the same whatever the policy says.
\<close>

theorem C4_conflict_policy:
  assumes "pushes (events (PerformGitOperation opts w)) \<noteq> []"
    and "push w = Some NoErrAlreadyUpToDate"
    and "snd (checkRemoteRefExistence (ToRepoURL opts) (target_tag opts) (ToAuth opts)
               (list_target w)) = Inr k"
  shows "(k = RefTypeTag \<and> OnTagExistsBehavior opts = ''error'' \<longrightarrow>
            returned (PerformGitOperation opts w) = Some (Err_tag_exists (target_tag opts)))
       \<and> (k = RefTypeTag \<and> OnTagExistsBehavior opts = ''skip'' \<longrightarrow>
            returned (PerformGitOperation opts w) = None
            \<and> last (events (PerformGitOperation opts w))
                = Log (Log_tag_exists_skipped (target_tag opts)))
       \<and> (k \<noteq> RefTypeTag \<longrightarrow>
            returned (PerformGitOperation opts w) = Some (Err_push None)
            \<and> (\<forall>p. PerformGitOperation (opts\<lparr>OnTagExistsBehavior := p\<rparr>) w
                     = PerformGitOperation opts w))"
proof -
  from assms(1) obtain t where t: "PerformGitOperation opts w = push_result opts w t"
    by (rule operation_ends)
  have same: "PerformGitOperation (opts\<lparr>OnTagExistsBehavior := p\<rparr>) w
                = PerformGitOperation opts w" if "k \<noteq> RefTypeTag" for p
  proof (rule operation_lift [where F = "\<lambda>r. r"])
    fix t'
    show "push_result (opts\<lparr>OnTagExistsBehavior := p\<rparr>) w t' = push_result opts w t'"
      using that assms(3) by (intro push_result_not_consulted) simp
  qed
  show ?thesis
    unfolding t
    using push_result_up_to_date [OF assms(2,3), of t]
      push_result_skipped [OF assms(2), of opts t] assms(3) same
    unfolding t
    by auto
qed

theorem C4_conflict_policy_witness:
  "pushes (events (PerformGitOperation opts_v1 world_tag_there)) \<noteq> []
   \<and> push world_tag_there = Some NoErrAlreadyUpToDate
   \<and> snd (checkRemoteRefExistence (ToRepoURL opts_v1) (target_tag opts_v1) (ToAuth opts_v1)
            (list_target world_tag_there)) = Inr RefTypeTag
   \<and> OnTagExistsBehavior opts_v1 = ''error''
   \<and> returned (PerformGitOperation opts_v1 world_tag_there) = Some (Err_tag_exists ''v1'')
   \<and> OnTagExistsBehavior opts_skip = ''skip''
   \<and> returned (PerformGitOperation opts_skip world_tag_there) = None
   \<and> snd (checkRemoteRefExistence (ToRepoURL opts_v1) (target_tag opts_v1) (ToAuth opts_v1)
            (list_target world_branch_there)) = Inr RefTypeBranch
   \<and> returned (PerformGitOperation opts_v1 world_branch_there) = Some (Err_push None)"
proof -
  have a: "pushes (events (PerformGitOperation opts_v1 world_tag_there)) \<noteq> []"
    by (simp add: run_defs opts_v1_def world_tag_there_def world_ok_def)
  have b: "push world_tag_there = Some NoErrAlreadyUpToDate"
    by (simp add: world_tag_there_def)
  have c: "snd (checkRemoteRefExistence (ToRepoURL opts_v1) (target_tag opts_v1) (ToAuth opts_v1)
            (list_target world_tag_there)) = Inr RefTypeTag"
    by (simp add: run_defs opts_v1_def world_tag_there_def world_ok_def)
  have d: "OnTagExistsBehavior opts_v1 = ''error''"
    by (simp add: opts_v1_def)
  have a': "pushes (events (PerformGitOperation opts_skip world_tag_there)) \<noteq> []"
    by (simp add: run_defs opts_skip_def opts_v1_def world_tag_there_def world_ok_def)
  have c': "snd (checkRemoteRefExistence (ToRepoURL opts_skip) (target_tag opts_skip)
            (ToAuth opts_skip) (list_target world_tag_there)) = Inr RefTypeTag"
    by (simp add: run_defs opts_skip_def opts_v1_def world_tag_there_def world_ok_def)
  have d': "OnTagExistsBehavior opts_skip = ''skip''"
    by (simp add: opts_skip_def)
  have a'': "pushes (events (PerformGitOperation opts_v1 world_branch_there)) \<noteq> []"
    by (simp add: run_defs opts_v1_def world_branch_there_def world_ok_def)
  have b'': "push world_branch_there = Some NoErrAlreadyUpToDate"
    by (simp add: world_branch_there_def)
  have c'': "snd (checkRemoteRefExistence (ToRepoURL opts_v1) (target_tag opts_v1)
            (ToAuth opts_v1) (list_target world_branch_there)) = Inr RefTypeBranch"
    by (simp add: run_defs opts_v1_def world_branch_there_def world_ok_def)
  have t: "target_tag opts_v1 = ''v1''"
    by (simp add: target_tag_def opts_v1_def)
  from C4_conflict_policy [OF a b c] C4_conflict_policy [OF a' b c']
    C4_conflict_policy [OF a'' b'' c''] a b c d d' c'' t
  show ?thesis by simp
qed

text \<open>
  C10. When the push has been made and reports \<open>NoErrAlreadyUpToDate\<close>, the name is a
  tag on the destination, and the policy is neither \<open>error\<close> nor \<open>skip\<close>, the operation
  returns the unknown-behaviour error, with the policy in it. The library calls of the
  run are the same for every policy, and its events are the same for every policy but
  \<open>skip\<close> (which logs one more line).
\<close>

theorem C10_unknown_policy:
  assumes "pushes (events (PerformGitOperation opts w)) \<noteq> []"
    and "push w = Some NoErrAlreadyUpToDate"
    and "snd (checkRemoteRefExistence (ToRepoURL opts) (target_tag opts) (ToAuth opts)
               (list_target w)) = Inr RefTypeTag"
    and "OnTagExistsBehavior opts \<noteq> ''error''"
    and "OnTagExistsBehavior opts \<noteq> ''skip''"
  shows "returned (PerformGitOperation opts w)
           = Some (Err_unknown_behavior (OnTagExistsBehavior opts))
       \<and> (\<forall>p. calls (PerformGitOperation (opts\<lparr>OnTagExistsBehavior := p\<rparr>) w)
                = calls (PerformGitOperation opts w))
       \<and> (\<forall>p. p \<noteq> ''skip'' \<longrightarrow>
              events (PerformGitOperation (opts\<lparr>OnTagExistsBehavior := p\<rparr>) w)
                = events (PerformGitOperation opts w))"
proof -
  from assms(1) obtain t where t: "PerformGitOperation opts w = push_result opts w t"
    by (rule operation_ends)
  have r: "returned (PerformGitOperation opts w)
           = Some (Err_unknown_behavior (OnTagExistsBehavior opts))"
    unfolding t using push_result_up_to_date [OF assms(2,3), of t] assms(4,5) by simp
  have e: "events (PerformGitOperation (opts\<lparr>OnTagExistsBehavior := p\<rparr>) w)
                = events (PerformGitOperation opts w)" if "p \<noteq> ''skip''" for p
    by (rule operation_lift) (rule push_result_events_policy [OF that assms(5)])
  from r e calls_policy show ?thesis by blast
qed

theorem C10_unknown_policy_witness:
  "pushes (events (PerformGitOperation opts_overwrite world_tag_there)) \<noteq> []
   \<and> push world_tag_there = Some NoErrAlreadyUpToDate
   \<and> snd (checkRemoteRefExistence (ToRepoURL opts_overwrite) (target_tag opts_overwrite)
            (ToAuth opts_overwrite) (list_target world_tag_there)) = Inr RefTypeTag
   \<and> OnTagExistsBehavior opts_overwrite \<noteq> ''error''
   \<and> OnTagExistsBehavior opts_overwrite \<noteq> ''skip''
   \<and> returned (PerformGitOperation opts_overwrite world_tag_there)
        = Some (Err_unknown_behavior ''overwrite'')
   \<and> ''error'' \<noteq> ''skip''
   \<and> events (PerformGitOperation (opts_overwrite\<lparr>OnTagExistsBehavior := ''error''\<rparr>)
               world_tag_there)
        = events (PerformGitOperation opts_overwrite world_tag_there)"
proof -
  have a: "pushes (events (PerformGitOperation opts_overwrite world_tag_there)) \<noteq> []"
    by (simp add: run_defs opts_overwrite_def opts_v1_def world_tag_there_def world_ok_def)
  have b: "push world_tag_there = Some NoErrAlreadyUpToDate"
    by (simp add: world_tag_there_def)
  have c: "snd (checkRemoteRefExistence (ToRepoURL opts_overwrite) (target_tag opts_overwrite)
            (ToAuth opts_overwrite) (list_target world_tag_there)) = Inr RefTypeTag"
    by (simp add: run_defs opts_overwrite_def opts_v1_def world_tag_there_def world_ok_def)
  have d: "OnTagExistsBehavior opts_overwrite \<noteq> ''error''"
    and e: "OnTagExistsBehavior opts_overwrite \<noteq> ''skip''"
    and o: "OnTagExistsBehavior opts_overwrite = ''overwrite''"
    by (simp_all add: opts_overwrite_def)
  have f: "''error'' \<noteq> ''skip''" by simp
  from C10_unknown_policy [OF a b c d e] a b c d e f o show ?thesis by simp
qed

section \<open>The clone\<close>




lemma prefix_push_stage: "prefix s t \<Longrightarrow> prefix s (events (push_stage opts w k t))"
  by (auto simp add: push_stage_def Let_def split: sum.splits intro!: prefix_push_result)

lemma prefix_remote_stage:
  "prefix (t @ [Log (Log_configuring_remote (ToRepoURL opts)),
                Call_CreateRemote (targetRemoteConfig opts)])
          (events (remote_stage opts w k t))"
  by (auto simp add: remote_stage_def Let_def split: option.splits intro!: prefix_push_stage)

lemma calls_prefix: "prefix s t \<Longrightarrow> prefix (filter is_call s) (filter is_call t)"
  by (auto simp: prefix_def)

lemma take_prefix: "prefix s t \<Longrightarrow> take (length s) t = s"
  by (auto simp: prefix_def)




subsection \<open>The stages after the clone\<close>















section \<open>Certificate validation\<close>

lemma tls_push_result:
  "(\<forall>e\<in>set (events (push_result opts w t)). InsecureSkipTLS e \<noteq> Some False)
     = (\<forall>e\<in>set t. InsecureSkipTLS e \<noteq> Some False)"
  by (auto simp add: push_result_def Let_def dest: check_tls
        split: option.splits prod.splits sum.splits simp del: Error.simps Contains.simps)

lemma tls_push_stage:
  "(\<forall>e\<in>set (events (push_stage opts w k t)). InsecureSkipTLS e \<noteq> Some False)
     = (\<forall>e\<in>set t. InsecureSkipTLS e \<noteq> Some False)"
  by (simp add: push_stage_def Let_def pushOptions_def tls_push_result ball_Un
        split: sum.splits)

lemma tls_remote_stage:
  "(\<forall>e\<in>set (events (remote_stage opts w k t)). InsecureSkipTLS e \<noteq> Some False)
     = (\<forall>e\<in>set t. InsecureSkipTLS e \<noteq> Some False)"
  by (simp add: remote_stage_def Let_def tls_push_stage ball_Un split: option.splits)

lemma tls_clone_stage:
  "(\<forall>e\<in>set (events (clone_stage opts w k t)). InsecureSkipTLS e \<noteq> Some False)
     = (\<forall>e\<in>set t. InsecureSkipTLS e \<noteq> Some False)"
  by (simp add: clone_stage_def Let_def cloneOptions_def tls_remote_stage ball_Un
        split: option.splits)

text \<open>
  Every call of \<open>PerformGitOperation\<close> that goes over the network (the two listings, the
  clone, the push) is made with \<open>InsecureSkipTLS\<close> set, whatever the caller asks for.
\<close>

lemma tls_never_validated:
  "\<forall>e\<in>set (events (PerformGitOperation opts w)). InsecureSkipTLS e \<noteq> Some False"
proof -
  obtain t r where c:
    "checkRemoteRefExistence (FromRepoURL opts) (FromRef opts) (FromAuth opts) (list_source w)
       = (t, r)"
    by (cases "checkRemoteRefExistence (FromRepoURL opts) (FromRef opts) (FromAuth opts)
                 (list_source w)")
  have t: "\<forall>e\<in>set t. InsecureSkipTLS e \<noteq> Some False"
    using check_tls [OF c] by blast
  show ?thesis
    using c t by (simp add: PerformGitOperation_def tls_clone_stage split: sum.splits)
qed

text \<open>
  C9 (the code differs from the claim). A caller that opts into nothing: the operation
  of \<open>opts_v1\<close> succeeds, and its listing, its clone and its push all skip the validation
  of the certificate (\<open>Some True\<close>); \<open>GitOperationOptions\<close> has no field to ask for it.
\<close>

theorem C9_validation_skipped_without_opt_in:
  "returned (PerformGitOperation opts_v1 world_ok) = None
   \<and> map InsecureSkipTLS (calls (PerformGitOperation opts_v1 world_ok))
       = [Some True, Some True, None, Some True]"
  by (simp add: run_defs opts_v1_def world_ok_def)

section \<open>The shape of a run of the mirror script\<close>

text \<open>
  Each step appends to the events it is given and decides the exit status without
  reading them: a step run after some events is the same step run from nothing, with
  those events in front.
\<close>

lemmas script_defs =
  mirror_script_def step4_def step5_def step6_def step8_def step9_def step10_def
  after_clone_def grep_q_def

lemma step10_nf:
  "t \<noteq> [] \<Longrightarrow> step10 v w a b t =
     \<lparr>sh_events = t @ sh_events (step10 v w a b []), exit_status = exit_status (step10 v w a b [])\<rparr>"
  by (simp add: step10_def Let_def)

lemma step9_nf:
  "t \<noteq> [] \<Longrightarrow> step9 v w k a b t =
     \<lparr>sh_events = t @ sh_events (step9 v w k a b []), exit_status = exit_status (step9 v w k a b [])\<rparr>"
  by (simp add: step9_def Let_def step10_nf)

lemma step8_nf:
  "t \<noteq> [] \<Longrightarrow> step8 v w k a t =
     \<lparr>sh_events = t @ sh_events (step8 v w k a []), exit_status = exit_status (step8 v w k a [])\<rparr>"
  by (simp add: step8_def Let_def step9_nf)

lemma step6_nf:
  "t \<noteq> [] \<Longrightarrow> step6 v w k c t =
     \<lparr>sh_events = t @ sh_events (step6 v w k c []), exit_status = exit_status (step6 v w k c [])\<rparr>"
  by (simp add: step6_def Let_def step8_nf)

lemma step5_nf:
  "t \<noteq> [] \<Longrightarrow> step5 v w t =
     \<lparr>sh_events = t @ sh_events (step5 v w []), exit_status = exit_status (step5 v w [])\<rparr>"
  by (simp add: step5_def Let_def step6_nf)

lemma step4_nf:
  "t \<noteq> [] \<Longrightarrow> step4 v w t =
     \<lparr>sh_events = t @ sh_events (step4 v w []), exit_status = exit_status (step4 v w [])\<rparr>"
  by (simp add: step4_def Let_def step5_nf)



lemma commands_append: "commands (a @ b) = commands a @ commands b"
  by (induction a rule: commands.induct) auto

lemma pushed_append: "pushed (a @ b) = pushed a @ pushed b"
  by (induction a rule: pushed.induct) auto

subsection \<open>The exit status does not depend on the last removal\<close>

lemma exit_step10: "exit_status (step10 v w a b t) = 0"
  by (simp add: step10_def Let_def)

lemma exit_step9_rm: "exit_status (step9 v (w\<lparr>rm_rf_clone := n\<rparr>) k a b t) = exit_status (step9 v w k a b t)"
  by (simp add: step9_def Let_def exit_step10)

lemma exit_step8_rm: "exit_status (step8 v (w\<lparr>rm_rf_clone := n\<rparr>) k a t) = exit_status (step8 v w k a t)"
  by (simp add: step8_def Let_def exit_step9_rm)

lemma exit_step6_rm: "exit_status (step6 v (w\<lparr>rm_rf_clone := n\<rparr>) k c t) = exit_status (step6 v w k c t)"
  by (simp add: step6_def Let_def exit_step8_rm)

lemma exit_step5_rm: "exit_status (step5 v (w\<lparr>rm_rf_clone := n\<rparr>) t) = exit_status (step5 v w t)"
  by (simp add: step5_def Let_def exit_step6_rm)

lemma exit_step4_rm: "exit_status (step4 v (w\<lparr>rm_rf_clone := n\<rparr>) t) = exit_status (step4 v w t)"
  by (simp add: step4_def Let_def exit_step5_rm)

lemma exit_rm: "exit_status (mirror_script v (w\<lparr>rm_rf_clone := n\<rparr>)) = exit_status (mirror_script v w)"
  by (simp add: mirror_script_def Let_def exit_step4_rm)

subsection \<open>The clone directory is removed on success only\<close>

lemma rm_step10: "Rm_rf (LOCAL_CLONE_DIR v) \<in> set (commands (sh_events (step10 v w a b [])))"
  by (simp add: step10_def Let_def commands_append)

lemma rm_step9:
  "(Rm_rf (LOCAL_CLONE_DIR v) \<in> set (commands (sh_events (step9 v w k a b []))))
     = (exit_status (step9 v w k a b []) = 0)"
  by (simp add: step9_def Let_def step10_nf commands_append rm_step10 exit_step10)

lemma rm_step8:
  "(Rm_rf (LOCAL_CLONE_DIR v) \<in> set (commands (sh_events (step8 v w k a []))))
     = (exit_status (step8 v w k a []) = 0)"
  by (simp add: step8_def Let_def step9_nf commands_append rm_step9)

lemma rm_step6:
  "(Rm_rf (LOCAL_CLONE_DIR v) \<in> set (commands (sh_events (step6 v w k c []))))
     = (exit_status (step6 v w k c []) = 0)"
  by (simp add: step6_def Let_def step8_nf commands_append rm_step8)

lemma rm_step5:
  "(Rm_rf (LOCAL_CLONE_DIR v) \<in> set (commands (sh_events (step5 v w []))))
     = (exit_status (step5 v w []) = 0)"
  by (simp add: step5_def Let_def step6_nf commands_append rm_step6)

lemma rm_step4:
  "(Rm_rf (LOCAL_CLONE_DIR v) \<in> set (commands (sh_events (step4 v w []))))
     = (exit_status (step4 v w []) = 0)"
  by (simp add: step4_def Let_def step5_nf commands_append rm_step5)

lemma clone_first:
  "dropWhile (\<lambda>c. \<not> is_clone c) (commands (sh_events (step4 v w [])))
     = commands (sh_events (step4 v w []))"
  by (simp add: step4_def Let_def step5_nf commands_append)

lemma after_clone_eq:
  "after_clone (mirror_script v w) =
     (if test_d w \<and> rm_rf_existing w \<noteq> 0 then [] else commands (sh_events (step4 v w [])))"
  by (simp add: mirror_script_def Let_def step4_nf after_clone_def commands_append clone_first)

lemma exit_eq:
  "exit_status (mirror_script v w) =
     (if test_d w \<and> rm_rf_existing w \<noteq> 0 then 1 else exit_status (step4 v w []))"
  by (simp add: mirror_script_def Let_def step4_nf)

lemma rm_iff_success:
  "(Rm_rf (LOCAL_CLONE_DIR v) \<in> set (after_clone (mirror_script v w)))
     = (exit_status (mirror_script v w) = 0)"
  by (simp add: after_clone_eq exit_eq rm_step4)

subsection \<open>The warning of the last removal\<close>

lemma warn_step10:
  "(Echo (Warning_rm (LOCAL_CLONE_DIR v)) \<in> set (sh_events (step10 v w a b [])))
     = (rm_rf_clone w \<noteq> 0)"
  by (simp add: step10_def Let_def)

lemma warn_step9:
  "(Echo (Warning_rm (LOCAL_CLONE_DIR v)) \<in> set (sh_events (step9 v w k a b [])))
     = (exit_status (step9 v w k a b []) = 0 \<and> rm_rf_clone w \<noteq> 0)"
  by (simp add: step9_def Let_def step10_nf warn_step10 exit_step10)

lemma warn_step8:
  "(Echo (Warning_rm (LOCAL_CLONE_DIR v)) \<in> set (sh_events (step8 v w k a [])))
     = (exit_status (step8 v w k a []) = 0 \<and> rm_rf_clone w \<noteq> 0)"
  by (simp add: step8_def Let_def step9_nf warn_step9)

lemma warn_step6:
  "(Echo (Warning_rm (LOCAL_CLONE_DIR v)) \<in> set (sh_events (step6 v w k c [])))
     = (exit_status (step6 v w k c []) = 0 \<and> rm_rf_clone w \<noteq> 0)"
  by (simp add: step6_def Let_def step8_nf warn_step8)

lemma warn_step5:
  "(Echo (Warning_rm (LOCAL_CLONE_DIR v)) \<in> set (sh_events (step5 v w [])))
     = (exit_status (step5 v w []) = 0 \<and> rm_rf_clone w \<noteq> 0)"
  by (simp add: step5_def Let_def step6_nf warn_step6)

lemma warn_step4:
  "(Echo (Warning_rm (LOCAL_CLONE_DIR v)) \<in> set (sh_events (step4 v w [])))
     = (exit_status (step4 v w []) = 0 \<and> rm_rf_clone w \<noteq> 0)"
  by (simp add: step4_def Let_def step5_nf warn_step5)

lemma warn_iff:
  "(Echo (Warning_rm (LOCAL_CLONE_DIR v)) \<in> set (sh_events (mirror_script v w)))
     = (exit_status (mirror_script v w) = 0 \<and> rm_rf_clone w \<noteq> 0)"
  by (simp add: mirror_script_def Let_def step4_nf warn_step4)


subsection \<open>What is pushed\<close>

lemma pushed_step10: "pushed (commands (sh_events (step10 v w a b []))) = []"
  by (simp add: step10_def Let_def commands_append pushed_append)

lemma pushed_step9:
  "pushed (commands (sh_events (step9 v w k a b []))) =
     (if k = ''tag'' then [''refs/tags/'' @ SOURCE_REF v]
      else if k = ''branch'' then [''refs/heads/'' @ SOURCE_REF v] else [])"
  by (simp add: step9_def Let_def step10_nf commands_append pushed_append pushed_step10)

lemma pushed_step8:
  "pushed (commands (sh_events (step8 v w k a []))) =
     (if grep_q ''main'' (ls_remote w)
      then (a @ '':refs/heads/mirror-objects-'' @ a)
           # (if push_objects w \<noteq> 0 then []
              else pushed (commands (sh_events (step9 v w k a (''refs/heads/mirror-objects-'' @ a) []))))
      else (a @ '':refs/heads/main'')
           # (if push_main_init w \<noteq> 0 then []
              else pushed (commands (sh_events (step9 v w k a [] [])))))"
  by (simp add: step8_def Let_def step9_nf commands_append pushed_append)




lemma ls_step8:
  "Git_ls_remote (DEST_REPO_URL_AUTH v) ''refs/heads/main''
     \<in> set (commands (sh_events (step8 v w k a [])))"
  by (simp add: step8_def Let_def step9_nf commands_append)


lemma ls_step6:
  "(Git_ls_remote (DEST_REPO_URL_AUTH v) ''refs/heads/main''
     \<in> set (commands (sh_events (step6 v w k c []))))
   = (git_branch w = 0 \<and> (remote_add w \<noteq> 0 \<longrightarrow> remote_set_url w = 0))"
  by (simp add: step6_def Let_def step8_nf commands_append ls_step8)


lemma ls_step5:
  "(Git_ls_remote (DEST_REPO_URL_AUTH v) ''refs/heads/main''
     \<in> set (commands (sh_events (step5 v w []))))
   = (if show_ref_tag w = 0
      then fst (rev_parse_tag w) = 0
           \<and> Git_ls_remote (DEST_REPO_URL_AUTH v) ''refs/heads/main''
               \<in> set (commands (sh_events (step6 v w ''tag'' (snd (rev_parse_tag w)) [])))
      else show_ref_head w = 0 \<and> fst (rev_parse_head w) = 0
           \<and> Git_ls_remote (DEST_REPO_URL_AUTH v) ''refs/heads/main''
               \<in> set (commands (sh_events (step6 v w ''branch'' (snd (rev_parse_head w)) []))))"
  by (simp add: step5_def Let_def step6_nf commands_append)

lemma ls_step4:
  "(Git_ls_remote (DEST_REPO_URL_AUTH v) ''refs/heads/main''
     \<in> set (commands (sh_events (step4 v w []))))
   = (git_clone w = 0 \<and> cd_clone_dir w = 0
      \<and> Git_ls_remote (DEST_REPO_URL_AUTH v) ''refs/heads/main''
          \<in> set (commands (sh_events (step5 v w []))))"
  by (simp add: step4_def Let_def step5_nf commands_append)

lemma ls_script:
  "(Git_ls_remote (DEST_REPO_URL_AUTH v) ''refs/heads/main''
     \<in> set (commands (sh_events (mirror_script v w))))
   = ((test_d w \<longrightarrow> rm_rf_existing w = 0)
      \<and> Git_ls_remote (DEST_REPO_URL_AUTH v) ''refs/heads/main''
          \<in> set (commands (sh_events (step4 v w []))))"
  by (simp add: mirror_script_def Let_def step4_nf commands_append)





lemma pushed_step6:
  "pushed (commands (sh_events (step6 v w k c []))) =
     (if git_branch w = 0 \<and> (remote_add w \<noteq> 0 \<longrightarrow> remote_set_url w = 0)
      then pushed (commands (sh_events (step8 v w k (''temp-mirror-local-'' @ date_s w) [])))
      else [])"
  by (cases "git_branch w = 0"; cases "remote_add w = 0"; cases "remote_set_url w = 0";
      simp add: step6_def Let_def step8_nf commands_append)

lemma pushed_step5:
  "pushed (commands (sh_events (step5 v w []))) =
     (if show_ref_tag w = 0
      then (if fst (rev_parse_tag w) \<noteq> 0 then []
            else pushed (commands (sh_events (step6 v w ''tag'' (snd (rev_parse_tag w)) []))))
      else if show_ref_head w = 0
      then (if fst (rev_parse_head w) \<noteq> 0 then []
            else pushed (commands (sh_events (step6 v w ''branch'' (snd (rev_parse_head w)) []))))
      else [])"
  by (simp add: step5_def Let_def step6_nf commands_append)

lemma pushed_step4:
  "pushed (commands (sh_events (step4 v w []))) =
     (if git_clone w \<noteq> 0 then [] else if cd_clone_dir w \<noteq> 0 then []
      else pushed (commands (sh_events (step5 v w []))))"
  by (simp add: step4_def Let_def step5_nf commands_append)

lemma pushed_script:
  "pushed (commands (sh_events (mirror_script v w))) =
     (if test_d w \<and> rm_rf_existing w \<noteq> 0 then []
      else pushed (commands (sh_events (step4 v w []))))"
  by (simp add: mirror_script_def Let_def step4_nf commands_append)

lemma reached_pushed:
  assumes "Git_ls_remote (DEST_REPO_URL_AUTH v) ''refs/heads/main''
             \<in> set (commands (sh_events (mirror_script v w)))"
  shows "pushed (commands (sh_events (mirror_script v w))) =
           pushed (commands (sh_events
             (step8 v w (if show_ref_tag w = 0 then ''tag'' else ''branch'')
                (''temp-mirror-local-'' @ date_s w) [])))"
proof -
  from assms have c: "\<not> (test_d w \<and> rm_rf_existing w \<noteq> 0)" "git_clone w = 0" "cd_clone_dir w = 0"
    "git_branch w = 0 \<and> (remote_add w \<noteq> 0 \<longrightarrow> remote_set_url w = 0)"
    "if show_ref_tag w = 0 then fst (rev_parse_tag w) = 0
     else show_ref_head w = 0 \<and> fst (rev_parse_head w) = 0"
    by (simp_all add: ls_script ls_step4 ls_step5 ls_step6 split: if_splits)
  have 4: "pushed (commands (sh_events (mirror_script v w)))
             = pushed (commands (sh_events (step5 v w [])))"
    unfolding pushed_script pushed_step4 using c(1,2,3) by auto
  show ?thesis
  proof (cases "show_ref_tag w = 0")
    case True
    with c(5) have "fst (rev_parse_tag w) = 0" by simp
    with True c(4) show ?thesis unfolding 4 pushed_step5 pushed_step6 by simp
  next
    case False
    with c(5) have "show_ref_head w = 0" "fst (rev_parse_head w) = 0" by simp_all
    with False c(4) show ?thesis unfolding 4 pushed_step5 pushed_step6 by simp
  qed
qed

lemma del_step10: "Git_push_delete r x \<notin> set (commands (sh_events (step10 v w a [] [])))"
  by (simp add: step10_def Let_def commands_append)

lemma del_step9: "Git_push_delete r x \<notin> set (commands (sh_events (step9 v w k a [] [])))"
  by (simp add: step9_def Let_def step10_nf commands_append del_step10)

lemma del_step8:
  "\<not> grep_q ''main'' (ls_remote w) \<Longrightarrow>
   Git_push_delete r x \<notin> set (commands (sh_events (step8 v w k a [])))"
  by (simp add: step8_def Let_def step9_nf commands_append del_step9)

lemma del_step6:
  "\<not> grep_q ''main'' (ls_remote w) \<Longrightarrow>
   Git_push_delete r x \<notin> set (commands (sh_events (step6 v w k c [])))"
  by (simp add: step6_def Let_def step8_nf commands_append del_step8)

lemma del_step5:
  "\<not> grep_q ''main'' (ls_remote w) \<Longrightarrow>
   Git_push_delete r x \<notin> set (commands (sh_events (step5 v w [])))"
  by (simp add: step5_def Let_def step6_nf commands_append del_step6)

lemma del_step4:
  "\<not> grep_q ''main'' (ls_remote w) \<Longrightarrow>
   Git_push_delete r x \<notin> set (commands (sh_events (step4 v w [])))"
  by (simp add: step4_def Let_def step5_nf commands_append del_step5)

lemma del_script:
  "\<not> grep_q ''main'' (ls_remote w) \<Longrightarrow>
   Git_push_delete r x \<notin> set (commands (sh_events (mirror_script v w)))"
  by (simp add: mirror_script_def Let_def step4_nf commands_append del_step4)


section \<open>The upload of the commit objects\<close>

text \<open>
  C1 (amended). In the mirror script, a run that reaches step 8 (it runs
  \<open>git ls-remote\<close> on \<open>refs/heads/main\<close> of the destination) pushes first the local
  temporary branch: to \<open>refs/heads/mirror-objects-<that branch>\<close> when the listing
  mentions \<open>main\<close>, and to \<open>refs/heads/main\<close> when it does not; in the second case
  the only other push there can be is the reference itself, and no remote branch is
  deleted.
  \<open>PerformGitOperation\<close> has no such step: whatever it pushes is a single ref-spec
  onto a tag of the destination (all tags, or the commit onto the tag asked for).
\<close>

theorem C1_upload_by_default_branch:
  "(Git_ls_remote (DEST_REPO_URL_AUTH v) ''refs/heads/main''
      \<in> set (commands (sh_events (mirror_script v sw))) \<longrightarrow>
      (grep_q ''main'' (ls_remote sw) \<longrightarrow>
         take 1 (pushed (commands (sh_events (mirror_script v sw)))) =
           [''temp-mirror-local-'' @ date_s sw @ '':refs/heads/mirror-objects-''
              @ ''temp-mirror-local-'' @ date_s sw])
      \<and> (\<not> grep_q ''main'' (ls_remote sw) \<longrightarrow>
           take 1 (pushed (commands (sh_events (mirror_script v sw)))) =
             [''temp-mirror-local-'' @ date_s sw @ '':refs/heads/main'']
           \<and> set (pushed (commands (sh_events (mirror_script v sw))))
               \<subseteq> {''temp-mirror-local-'' @ date_s sw @ '':refs/heads/main'',
                   ''refs/tags/'' @ SOURCE_REF v, ''refs/heads/'' @ SOURCE_REF v}
           \<and> (\<forall>r x. Git_push_delete r x \<notin> set (commands (sh_events (mirror_script v sw))))))
   \<and> (\<forall>po\<in>set (pushes (events (PerformGitOperation opts w))).
         po_RefSpecs po = [''refs/tags/*:refs/tags/*'']
         \<or> (\<exists>h. po_RefSpecs po = [h @ '':refs/tags/'' @ ToTag opts]))"
proof -
  have script: "(grep_q ''main'' (ls_remote sw) \<longrightarrow>
         take 1 (pushed (commands (sh_events (mirror_script v sw)))) =
           [''temp-mirror-local-'' @ date_s sw @ '':refs/heads/mirror-objects-''
              @ ''temp-mirror-local-'' @ date_s sw])
      \<and> (\<not> grep_q ''main'' (ls_remote sw) \<longrightarrow>
           take 1 (pushed (commands (sh_events (mirror_script v sw)))) =
             [''temp-mirror-local-'' @ date_s sw @ '':refs/heads/main'']
           \<and> set (pushed (commands (sh_events (mirror_script v sw))))
               \<subseteq> {''temp-mirror-local-'' @ date_s sw @ '':refs/heads/main'',
                   ''refs/tags/'' @ SOURCE_REF v, ''refs/heads/'' @ SOURCE_REF v}
           \<and> (\<forall>r x. Git_push_delete r x \<notin> set (commands (sh_events (mirror_script v sw)))))"
    if reach: "Git_ls_remote (DEST_REPO_URL_AUTH v) ''refs/heads/main''
      \<in> set (commands (sh_events (mirror_script v sw)))"
    unfolding reached_pushed [OF reach] pushed_step8 pushed_step9
    using del_script [of sw _ _ v]
    by simp
  have go: "\<forall>po\<in>set (pushes (events (PerformGitOperation opts w))).
         po_RefSpecs po = [''refs/tags/*:refs/tags/*'']
         \<or> (\<exists>h. po_RefSpecs po = [h @ '':refs/tags/'' @ ToTag opts])"
    using operation_pushes [of opts w] by (auto simp: pushOptions_def)
  from script go show ?thesis by blast
qed

theorem C1_upload_by_default_branch_witness:
  "Git_ls_remote (DEST_REPO_URL_AUTH vars_v1) ''refs/heads/main''
      \<in> set (commands (sh_events (mirror_script vars_v1 sh_world_ok)))
   \<and> grep_q ''main'' (ls_remote sh_world_ok)
   \<and> take 1 (pushed (commands (sh_events (mirror_script vars_v1 sh_world_ok)))) =
       [''temp-mirror-local-1700000000:refs/heads/mirror-objects-temp-mirror-local-1700000000'']
   \<and> Git_ls_remote (DEST_REPO_URL_AUTH vars_v1) ''refs/heads/main''
      \<in> set (commands (sh_events (mirror_script vars_v1 sh_world_fresh)))
   \<and> \<not> grep_q ''main'' (ls_remote sh_world_fresh)
   \<and> take 1 (pushed (commands (sh_events (mirror_script vars_v1 sh_world_fresh)))) =
       [''temp-mirror-local-1700000000:refs/heads/main'']
   \<and> pushOptions opts_v1 [''refs/tags/*:refs/tags/*'']
        \<in> set (pushes (events (PerformGitOperation opts_v1 world_ok)))
   \<and> po_RefSpecs (pushOptions opts_v1 [''refs/tags/*:refs/tags/*''])
        = [''refs/tags/*:refs/tags/*'']"
proof -
  have a: "Git_ls_remote (DEST_REPO_URL_AUTH vars_v1) ''refs/heads/main''
      \<in> set (commands (sh_events (mirror_script vars_v1 sh_world_ok)))"
    by (simp add: script_defs Let_def vars_v1_def sh_world_ok_def)
  have b: "grep_q ''main'' (ls_remote sh_world_ok)"
    by (simp add: sh_world_ok_def grep_q_def)
  have a': "Git_ls_remote (DEST_REPO_URL_AUTH vars_v1) ''refs/heads/main''
      \<in> set (commands (sh_events (mirror_script vars_v1 sh_world_fresh)))"
    by (simp add: script_defs Let_def vars_v1_def sh_world_fresh_def sh_world_ok_def)
  have b': "\<not> grep_q ''main'' (ls_remote sh_world_fresh)"
    by (simp add: sh_world_fresh_def sh_world_ok_def grep_q_def)
  have d: "date_s sh_world_ok = ''1700000000''" "date_s sh_world_fresh = ''1700000000''"
    by (simp_all add: sh_world_fresh_def sh_world_ok_def)
  have g: "pushOptions opts_v1 [''refs/tags/*:refs/tags/*'']
        \<in> set (pushes (events (PerformGitOperation opts_v1 world_ok)))"
    by (simp add: run_defs opts_v1_def world_ok_def)
  from C1_upload_by_default_branch [of vars_v1 sh_world_ok opts_v1 world_ok]
    C1_upload_by_default_branch [of vars_v1 sh_world_fresh opts_v1 world_ok]
    a b a' b' g
  show ?thesis
    unfolding d by (simp add: pushOptions_def)
qed

text \<open>
  C1 as stated fails on \<open>PerformGitOperation\<close>: with a destination that has
  \<open>refs/heads/main\<close> and with one that has no reference at all, the operation reaches
  its push and succeeds, never lists the destination, and pushes one ref-spec,
  \<open>refs/tags/*:refs/tags/*\<close>: no temporary branch is pushed, to no branch.
\<close>

theorem C1_counterexample:
  "list_target world_ok = Inr [''refs/heads/main'']
   \<and> list_target world_empty_target = Inr []
   \<and> returned (PerformGitOperation opts_v1 world_ok) = None
   \<and> returned (PerformGitOperation opts_v1 world_empty_target) = None
   \<and> map po_RefSpecs (pushes (events (PerformGitOperation opts_v1 world_ok)))
       = [[''refs/tags/*:refs/tags/*'']]
   \<and> map po_RefSpecs (pushes (events (PerformGitOperation opts_v1 world_empty_target)))
       = [[''refs/tags/*:refs/tags/*'']]
   \<and> calls (PerformGitOperation opts_v1 world_ok) =
       [Call_List (origin ''https://src/iris'') (listOptions None),
        Call_PlainClone ''/tmp/w'' (cloneOptions opts_v1 RefTypeTag),
        Call_CreateRemote (targetRemoteConfig opts_v1),
        Call_Push (pushOptions opts_v1 [''refs/tags/*:refs/tags/*''])]"
  by (simp add: run_defs opts_v1_def world_ok_def world_empty_target_def)

section \<open>The reference that is published\<close>





section \<open>Cleanup\<close>

subsection \<open>Which directory is removed\<close>

lemma split_path_name: "CHR ''/'' \<notin> set d \<Longrightarrow> split_path d = [d]"
  by (induction d) auto

lemma resolve_name: "simple_name d \<Longrightarrow> resolve c d = c @ [d]"
  by (cases d) (auto simp add: simple_name_def resolve_def is_absolute_def split_path_name)

lemma resolve_parent: "resolve (c @ [d]) ''..'' = c"
  by (simp add: resolve_def is_absolute_def)

lemma resolve_absolute: "is_absolute d \<Longrightarrow> resolve c d = resolve c' d"
  by (simp add: resolve_def)

lemma back_in_place:
  "simple_name d \<or> is_absolute d \<Longrightarrow> resolve (resolve (resolve c d) ''..'') d = resolve c d"
  using resolve_absolute [of d "resolve (resolve c d) ''..''" c]
  by (auto simp add: resolve_name resolve_parent)

lemma fs_step10:
  "fs_effects c (commands (sh_events (step10 v w a b []))) =
     [Remove (resolve (resolve c ''..'') (LOCAL_CLONE_DIR v))]"
  by (simp add: step10_def Let_def commands_append)

lemma fs_step9_pushed:
  "fs_effects c (commands (sh_events (step9 v w k a b []))) =
     (if (k = ''tag'' \<or> k = ''branch'') \<and> push_ref w \<noteq> 0 then []
      else [Remove (resolve (resolve c ''..'') (LOCAL_CLONE_DIR v))])"
  by (auto simp add: step9_def Let_def step10_nf commands_append fs_step10)

lemma exit_step9:
  "exit_status (step9 v w k a b []) =
     (if (k = ''tag'' \<or> k = ''branch'') \<and> push_ref w \<noteq> 0 then 1 else 0)"
  by (auto simp add: step9_def Let_def exit_step10)

lemma fs_step9:
  "fs_effects c (commands (sh_events (step9 v w k a b []))) =
     (if exit_status (step9 v w k a b []) = 0
      then [Remove (resolve (resolve c ''..'') (LOCAL_CLONE_DIR v))] else [])"
  by (simp add: fs_step9_pushed exit_step9)

lemma fs_step8:
  "fs_effects c (commands (sh_events (step8 v w k a []))) =
     (if exit_status (step8 v w k a []) = 0
      then [Remove (resolve (resolve c ''..'') (LOCAL_CLONE_DIR v))] else [])"
  by (cases "grep_q ''main'' (ls_remote w)"; cases "push_objects w = 0";
      cases "push_main_init w = 0";
      simp add: step8_def Let_def step9_nf commands_append fs_step9)

lemma fs_step6:
  "fs_effects c (commands (sh_events (step6 v w k h []))) =
     (if exit_status (step6 v w k h []) = 0
      then [Remove (resolve (resolve c ''..'') (LOCAL_CLONE_DIR v))] else [])"
  by (cases "git_branch w = 0"; cases "remote_add w = 0"; cases "remote_set_url w = 0";
      simp add: step6_def Let_def step8_nf commands_append fs_step8)

lemma fs_step5:
  "fs_effects c (commands (sh_events (step5 v w []))) =
     (if exit_status (step5 v w []) = 0
      then [Remove (resolve (resolve c ''..'') (LOCAL_CLONE_DIR v))] else [])"
  by (cases "show_ref_tag w = 0"; cases "fst (rev_parse_tag w) = 0";
      cases "show_ref_head w = 0"; cases "fst (rev_parse_head w) = 0";
      simp add: step5_def Let_def step6_nf commands_append fs_step6)

lemma fs_step4:
  "fs_effects c (commands (sh_events (step4 v w []))) =
     Clone_into (resolve c (LOCAL_CLONE_DIR v))
     # (if exit_status (step4 v w []) = 0
        then [Remove (resolve (resolve (resolve c (LOCAL_CLONE_DIR v)) ''..'')
                        (LOCAL_CLONE_DIR v))]
        else [])"
  by (cases "git_clone w = 0"; cases "cd_clone_dir w = 0";
      simp add: step4_def Let_def step5_nf commands_append fs_step5)

lemma fs_script:
  "fs_effects c (commands (sh_events (mirror_script v w))) =
     (if test_d w then [Remove (resolve c (LOCAL_CLONE_DIR v))] else [])
     @ (if test_d w \<and> rm_rf_existing w \<noteq> 0 then []
        else Clone_into (resolve c (LOCAL_CLONE_DIR v))
             # (if exit_status (mirror_script v w) = 0
                then [Remove (resolve (resolve (resolve c (LOCAL_CLONE_DIR v)) ''..'')
                                (LOCAL_CLONE_DIR v))]
                else []))"
  by (cases "test_d w"; cases "rm_rf_existing w = 0";
      simp add: mirror_script_def Let_def step4_nf commands_append fs_step4)

text \<open>
  With a clone directory of two names the last \<open>rm -rf\<close> is resolved one level too deep:
  the script ends with status 0 and without a warning, and the directory it removed is not
  the one it cloned into.
\<close>

lemma nested_clone_dir:
  "exit_status (mirror_script vars_nested sh_world_ok) = 0
   \<and> fs_effects [''home'', ''ci''] (commands (sh_events (mirror_script vars_nested sh_world_ok)))
       = [Clone_into [''home'', ''ci'', ''work'', ''clone''],
          Remove [''home'', ''ci'', ''work'', ''work'', ''clone'']]
   \<and> Echo (Warning_rm ''work/clone'') \<notin> set (sh_events (mirror_script vars_nested sh_world_ok))"
  by (simp add: script_defs Let_def vars_nested_def vars_v1_def sh_world_ok_def resolve_def
        is_absolute_def)

text \<open>
  C8 (amended). In a run of the mirror script that has passed the parsing and the
  validation of its arguments (steps 1 and 2), the clone directory is removed on the
  success path only: \<open>rm -rf\<close> of the clone directory is run after the clone exactly when
  the script ends with status 0. The exit status does not depend on the status of that
  removal, and a failed removal on the success path prints its warning. (A run that
  fails after the clone ends with status 1 and has not removed the directory.) From any
  working directory, what the run does to directories is: the removal of step 3 when the
  directory is there, the clone, and on the success path one removal, made from the
  parent of the directory the script has entered. When the clone directory is given as a
  single name or as an absolute path, that removal is of the directory that was cloned
  into.
\<close>

theorem C8_cleanup_on_success:
  "((Rm_rf (LOCAL_CLONE_DIR v) \<in> set (after_clone (mirror_script v w)))
      = (exit_status (mirror_script v w) = 0))
   \<and> exit_status (mirror_script v (w\<lparr>rm_rf_clone := n\<rparr>)) = exit_status (mirror_script v w)
   \<and> ((Echo (Warning_rm (LOCAL_CLONE_DIR v)) \<in> set (sh_events (mirror_script v w)))
        = (exit_status (mirror_script v w) = 0 \<and> rm_rf_clone w \<noteq> 0))
   \<and> fs_effects c (commands (sh_events (mirror_script v w))) =
       (if test_d w then [Remove (resolve c (LOCAL_CLONE_DIR v))] else [])
       @ (if test_d w \<and> rm_rf_existing w \<noteq> 0 then []
          else Clone_into (resolve c (LOCAL_CLONE_DIR v))
               # (if exit_status (mirror_script v w) = 0
                  then [Remove (resolve (resolve (resolve c (LOCAL_CLONE_DIR v)) ''..'')
                                  (LOCAL_CLONE_DIR v))]
                  else []))
   \<and> (simple_name (LOCAL_CLONE_DIR v) \<or> is_absolute (LOCAL_CLONE_DIR v) \<longrightarrow>
        resolve (resolve (resolve c (LOCAL_CLONE_DIR v)) ''..'') (LOCAL_CLONE_DIR v)
          = resolve c (LOCAL_CLONE_DIR v))"
  using rm_iff_success [of v w] exit_rm [where v=v and w=w and n=n] warn_iff [of v w]
    fs_script [of c v w] back_in_place [of "LOCAL_CLONE_DIR v" c]
  by blast

theorem C8_cleanup_on_success_witness:
  "exit_status (mirror_script vars_v1 sh_world_ok) = 0
   \<and> Rm_rf (LOCAL_CLONE_DIR vars_v1) \<in> set (after_clone (mirror_script vars_v1 sh_world_ok))
   \<and> simple_name (LOCAL_CLONE_DIR vars_v1)
   \<and> fs_effects [''home'', ''ci''] (commands (sh_events (mirror_script vars_v1 sh_world_ok)))
       = [Clone_into [''home'', ''ci'', ''temp_clone_dir''],
          Remove [''home'', ''ci'', ''temp_clone_dir'']]
   \<and> exit_status (mirror_script vars_v1 sh_world_rm_fails) = 0
   \<and> rm_rf_clone sh_world_rm_fails \<noteq> 0
   \<and> Echo (Warning_rm (LOCAL_CLONE_DIR vars_v1))
        \<in> set (sh_events (mirror_script vars_v1 sh_world_rm_fails))
   \<and> exit_status (mirror_script vars_v1 sh_world_push_fails) \<noteq> 0
   \<and> Rm_rf (LOCAL_CLONE_DIR vars_v1)
        \<notin> set (after_clone (mirror_script vars_v1 sh_world_push_fails))
   \<and> fs_effects [''home'', ''ci'']
        (commands (sh_events (mirror_script vars_v1 sh_world_push_fails)))
       = [Clone_into [''home'', ''ci'', ''temp_clone_dir'']]"
proof -
  have a: "exit_status (mirror_script vars_v1 sh_world_ok) = 0"
    by (simp add: script_defs Let_def vars_v1_def sh_world_ok_def)
  have b: "exit_status (mirror_script vars_v1 sh_world_rm_fails) = 0"
    by (simp add: script_defs Let_def vars_v1_def sh_world_rm_fails_def sh_world_ok_def)
  have c: "rm_rf_clone sh_world_rm_fails \<noteq> 0"
    by (simp add: sh_world_rm_fails_def)
  have d: "exit_status (mirror_script vars_v1 sh_world_push_fails) \<noteq> 0"
    by (simp add: script_defs Let_def vars_v1_def sh_world_push_fails_def sh_world_ok_def)
  have e: "simple_name (LOCAL_CLONE_DIR vars_v1)"
    by (simp add: simple_name_def vars_v1_def)
  have f: "resolve [''home'', ''ci''] (LOCAL_CLONE_DIR vars_v1)
             = [''home'', ''ci'', ''temp_clone_dir'']"
    by (simp add: resolve_def is_absolute_def vars_v1_def)
  have g: "\<not> test_d sh_world_ok" "\<not> test_d sh_world_push_fails"
    by (simp_all add: sh_world_push_fails_def sh_world_ok_def)
  from C8_cleanup_on_success [of vars_v1 sh_world_ok 0 "[''home'', ''ci'']"]
    C8_cleanup_on_success [of vars_v1 sh_world_rm_fails 0 "[''home'', ''ci'']"]
    C8_cleanup_on_success [of vars_v1 sh_world_push_fails 0 "[''home'', ''ci'']"] a b c d e f g
  show ?thesis by simp
qed

text \<open>
  C8 as stated fails. On a failure path of the script (the push of the reference fails
  after the clone) the script ends with status 1 and runs no \<open>rm -rf\<close>: the clone
  directory stays. On the success path of \<open>PerformGitOperation\<close> the library calls are
  the listing, the clone, the remote and the push: the directory it cloned into is not
  removed either.
\<close>

theorem C8_counterexample:
  "exit_status (mirror_script vars_v1 sh_world_push_fails) = 1
   \<and> commands (sh_events (mirror_script vars_v1 sh_world_push_fails)) =
       [Test_d ''temp_clone_dir'',
        Git_clone ''https://oauth2:s@src/iris'' ''temp_clone_dir'',
        Cd ''temp_clone_dir'',
        Git_show_ref_verify ''refs/tags/v1'',
        Git_rev_parse ''refs/tags/v1'',
        Date_s,
        Git_branch ''temp-mirror-local-1700000000'' ''c1'',
        Git_remote_add ''destination'' ''https://oauth2:t@dst/iris'',
        Git_ls_remote ''https://oauth2:t@dst/iris'' ''refs/heads/main'',
        Git_push ''destination''
          ''temp-mirror-local-1700000000:refs/heads/mirror-objects-temp-mirror-local-1700000000'',
        Git_push ''destination'' ''refs/tags/v1'']
   \<and> returned (PerformGitOperation opts_v1 world_ok) = None
   \<and> calls (PerformGitOperation opts_v1 world_ok) =
       [Call_List (origin ''https://src/iris'') (listOptions None),
        Call_PlainClone ''/tmp/w'' (cloneOptions opts_v1 RefTypeTag),
        Call_CreateRemote (targetRemoteConfig opts_v1),
        Call_Push (pushOptions opts_v1 [''refs/tags/*:refs/tags/*''])]"
  by (simp add: script_defs vars_v1_def sh_world_push_fails_def sh_world_ok_def
        run_defs opts_v1_def world_ok_def)

end
